theory Spec2Isabelle
  imports Complex_Main "HOL-Library.Sublist"
begin

section \<open>The plan-and-search executor: \<^verbatim>\<open>PlanSearchExecutorSK.generate_response\<close>\<close>

text \<open>
  A shallow embedding of \<^verbatim>\<open>services_sk/plan_search_executor_sk.py\<close>.
  The asynchronous generator is modelled by the list of fragments it yields, in order,
  together with the list of collaborator invocations it makes, in order. A Python
  \<^verbatim>\<open>str\<close> is a \<^typ>\<open>string\<close>, one list element per character; an exception
  is represented by its \<^verbatim>\<open>str(e)\<close> text, and a computation that may raise returns
  a sum with \<open>Inl\<close> for the exception.
\<close>

subsection \<open>Strings\<close>

type_synonym exn = string

definition NL :: string where
  "NL = [CHR 0x0A]"

definition UnboundLocalError :: "string \<Rightarrow> exn" where
  \<comment> \<open>reading a local name before its first assignment (message text of CPython 3.11 and later)\<close>
  "UnboundLocalError name =
     ''cannot access local variable '' @ [CHR 0x27] @ name @ [CHR 0x27]
       @ '' where it is not associated with a value''"

definition KeyError :: "string \<Rightarrow> exn" where
  "KeyError k = [CHR 0x27] @ k @ [CHR 0x27]"

fun join :: "string \<Rightarrow> string list \<Rightarrow> string" where
  \<comment> \<open>\<^verbatim>\<open>sep.join(xs)\<close>\<close>
  "join sep [] = []"
| "join sep [x] = x"
| "join sep (x # y # ys) = x @ sep @ join sep (y # ys)"

definition digit :: "nat \<Rightarrow> char" where
  "digit d = ''0123456789'' ! d"

fun str_nat :: "nat \<Rightarrow> string" where
  \<comment> \<open>\<^verbatim>\<open>str(n)\<close> of a non-negative integer, as an f-string renders it\<close>
  "str_nat n = (if n < 10 then [digit n] else str_nat (n div 10) @ [digit (n mod 10)])"

declare str_nat.simps [simp del]

fun truthy :: "string option \<Rightarrow> bool" where
  \<comment> \<open>Python truthiness of an optional text: absent, \<^verbatim>\<open>None\<close> and \<^verbatim>\<open>""\<close> are falsy\<close>
  "truthy None = False"
| "truthy (Some s) = (s \<noteq> [])"

fun get_default :: "'a option \<Rightarrow> 'a \<Rightarrow> 'a" where
  \<comment> \<open>\<^verbatim>\<open>d.get(key, default)\<close>, the option being the entry of the key\<close>
  "get_default None dflt = dflt"
| "get_default (Some v) dflt = v"

fun or_else :: "string option \<Rightarrow> string \<Rightarrow> string" where
  \<comment> \<open>\<^verbatim>\<open>d.get(key) or alt\<close>\<close>
  "or_else None alt = alt"
| "or_else (Some s) alt = (if s \<noteq> [] then s else alt)"

subsection \<open>Indexed-document search: the context budgeter (lines 404--508)\<close>

text \<open>
  A document of a search result is a dictionary with optional text entries; a field is
  \<open>None\<close> when the key is absent.
\<close>

record document =
  d_id :: "string option"
  d_title :: "string option"
  d_url :: "string option"
  d_content :: "string option"
  d_summary :: "string option"

record search_data =
  status :: "string option"
  documents :: "document list option"

definition MAX_CONTEXT_LENGTH :: nat where
  "MAX_CONTEXT_LENGTH = 400000"

definition MAX_DOCUMENT_LENGTH :: nat where
  "MAX_DOCUMENT_LENGTH = 10000"

text \<open>The three accumulators of the stage: \<^verbatim>\<open>seen_documents\<close>, \<^verbatim>\<open>doc_contexts\<close>
  and \<^verbatim>\<open>current_total_length\<close>.\<close>

record doc_state =
  seen_documents :: "string set"
  doc_contexts :: "string list"
  current_total_length :: nat

definition doc_state_init :: doc_state where
  "doc_state_init = \<lparr>seen_documents = {}, doc_contexts = [], current_total_length = 0\<rparr>"

definition doc_identity :: "nat \<Rightarrow> nat \<Rightarrow> document \<Rightarrow> string" where
  \<comment> \<open>line 442: \<^verbatim>\<open>doc.get('id') or doc.get('title') or doc.get('url', f"doc_{i}_{doc_idx}")\<close>\<close>
  "doc_identity i doc_idx doc =
     or_else (d_id doc) (or_else (d_title doc)
       (get_default (d_url doc) (''doc_'' @ str_nat i @ ''_'' @ str_nat doc_idx)))"

definition content_to_add :: "document \<Rightarrow> string option" where
  \<comment> \<open>lines 451--469; \<open>None\<close> is the branch that logs "no usable content" and continues\<close>
  "content_to_add doc =
     (if truthy (d_content doc) then
        (let original_content = get_default (d_content doc) [] in
         if length original_content > MAX_DOCUMENT_LENGTH
         then Some (take MAX_DOCUMENT_LENGTH original_content @ ''... [truncated]'')
         else Some original_content)
      else if truthy (d_summary doc) then
        Some (take MAX_DOCUMENT_LENGTH (get_default (d_summary doc) []))
      else None)"

datatype ctl = Next | Break

definition process_doc :: "nat \<Rightarrow> nat \<Rightarrow> document \<Rightarrow> doc_state \<Rightarrow> ctl \<times> doc_state" where
  \<comment> \<open>the body of the inner loop, lines 441--478\<close>
  "process_doc i doc_idx doc st =
     (let doc_id = doc_identity i doc_idx doc in
      if doc_id \<in> seen_documents st then (Next, st)
      else
        (let st1 = st\<lparr>seen_documents := insert doc_id (seen_documents st)\<rparr> in
         case content_to_add doc of
           None \<Rightarrow> (Next, st1)
         | Some c \<Rightarrow>
             if c \<noteq> [] \<and> current_total_length st1 + length c \<le> MAX_CONTEXT_LENGTH
             then (Next, st1\<lparr>doc_contexts := doc_contexts st1 @ [c],
                               current_total_length := current_total_length st1 + length c\<rparr>)
             else (Break, st1)))"

fun doc_loop :: "nat \<Rightarrow> nat \<Rightarrow> document list \<Rightarrow> doc_state \<Rightarrow> doc_state" where
  \<comment> \<open>\<^verbatim>\<open>for doc_idx, doc in enumerate(documents[:2], 1)\<close>, from index \<open>doc_idx\<close> on\<close>
  "doc_loop i doc_idx [] st = st"
| "doc_loop i doc_idx (doc # docs) st =
     (case process_doc i doc_idx doc st of
        (Break, st') \<Rightarrow> st'
      | (Next, st') \<Rightarrow> doc_loop i (Suc doc_idx) docs st')"

definition process_result :: "nat \<Rightarrow> search_data option \<Rightarrow> doc_state \<Rightarrow> doc_state" where
  \<comment> \<open>lines 431--484: what one query's result does to the accumulators\<close>
  "process_result i ai_search_result st =
     (case ai_search_result of
        None \<Rightarrow> st
      | Some search_data \<Rightarrow>
          (if status search_data = Some ''success'' \<and> get_default (documents search_data) [] \<noteq> []
           then doc_loop i 1 (take 2 (get_default (documents search_data) [])) st
           else st))"

subsection \<open>Collaborators, request and local variables\<close>

record ChatMessage =
  role :: string
  content :: string

datatype SearchEngine =
  BING_GROUNDING | BING_SEARCH_CRAWLING | BING_GROUNDING_CRAWLING
| OTHER_SEARCH_ENGINE  \<comment> \<open>any further member of \<^verbatim>\<open>utils.enum.SearchEngine\<close>\<close>

text \<open>One entry of \<^verbatim>\<open>LOCALE_MESSAGES\<close>: the keys this module reads.\<close>

record locale_msg =
  input_needed :: string
  analyzing :: string
  analyze_complete :: string
  intent_small_talk :: string
  search_planning :: string
  plan_done :: string
  searching :: string
  search_keyword :: string
  search_done :: string
  searching_YouTube :: string
  YouTube_done :: string
  ai_search_context :: string
  ai_search_context_done :: string
  answering :: string

text \<open>The parsed JSON value of the intent analysis and of the search plan; a field is
  \<open>None\<close> when the key is absent.\<close>

record intent_data =
  i_user_intent :: "string option"
  i_enriched_query :: "string option"
  i_search_query :: "string option"
  i_resource_group_name :: "string option"

record plan_data =
  p_search_queries :: "string list option"

type_synonym answer_messages = "(string \<times> string) list"

text \<open>
  Every invocation of a kernel function or of the completion client, with its arguments.
\<close>

datatype call =
  AnalyzeIntent string "string option" rat
| GenerateSearchPlan string string "string option" rat
| GroundingSearchMultiQuery "string list" "int option" "rat option" "string option"
| SearchSingleQuery string "string option" nat nat
| YoutubeMcpSearchVideos string
| YoutubeSearchVideos string
| SearchDocuments string string nat bool
| ChatCompletionsCreate answer_messages "int option" "rat option" bool

text \<open>
  What the module takes from outside: the locale table, the settings, the clock, the
  prompt templates, the serialisers, and the answers of the services. A service answers
  \<open>Inl e\<close> when the invocation (or the parsing of its value) raises \<open>e\<close>,
  \<open>Inr None\<close> when the result or its value is falsy, and \<open>Inr (Some v)\<close> otherwise.
  A streamed completion is its chunks (the \<^verbatim>\<open>delta.content\<close> of each, \<open>None\<close> when
  the chunk has none) and the exception that ends the iteration, if any.
\<close>

record env =
  LOCALE_MESSAGES :: "string \<rightharpoonup> locale_msg"
  MAX_TOKENS :: int
  DEFAULT_TEMPERATURE :: rat
  current_date_now :: string
  ttft_total_seconds :: string
  GENERAL_ANSWER_PROMPT :: "string \<Rightarrow> string \<Rightarrow> string \<Rightarrow> string option \<Rightarrow> string"
  PRODUCT_ANSWER_PROMPT :: "string \<Rightarrow> string \<Rightarrow> string \<Rightarrow> string option \<Rightarrow> string"
  json_dumps_intent :: "intent_data \<Rightarrow> string"
  json_dumps_plan :: "plan_data \<Rightarrow> string"
  b64encode :: "string \<Rightarrow> string"
  analyze_intent :: "string \<Rightarrow> string option \<Rightarrow> exn + intent_data option"
  generate_search_plan :: "string \<Rightarrow> string \<Rightarrow> string option \<Rightarrow> exn + plan_data option"
  grounding_search_multi_query ::
    "string list \<Rightarrow> int option \<Rightarrow> rat option \<Rightarrow> string option \<Rightarrow> exn + string option"
  search_single_query :: "string \<Rightarrow> string option \<Rightarrow> exn + string option"
  youtube_mcp_search_youtube_videos :: "string \<Rightarrow> exn + string option"
  youtube_search_youtube_videos :: "string \<Rightarrow> exn + string option"
  search_documents :: "string \<Rightarrow> exn + search_data option"
  create_completion :: "answer_messages \<Rightarrow> int option \<Rightarrow> rat option \<Rightarrow> exn + string"
  create_stream ::
    "answer_messages \<Rightarrow> int option \<Rightarrow> rat option \<Rightarrow> exn + (string option list \<times> exn option)"

text \<open>The parameters of \<^verbatim>\<open>generate_response\<close>.\<close>

record request =
  messages :: "ChatMessage list"
  max_tokens :: "int option"
  temperature :: "rat option"
  query_rewrite :: bool
  planning :: bool
  search_engine :: SearchEngine
  stream :: bool
  elapsed_time :: bool
  locale_tag :: "string option"  \<comment> \<open>the parameter \<^verbatim>\<open>locale\<close>\<close>
  include_web_search :: bool
  include_ytb_search :: bool
  include_mcp_server :: bool
  include_ai_search :: bool
  verbose :: bool

text \<open>
  The frame of one invocation: the parameters (Python reassigns some of them) and the
  locals that outlive a stage, with the fragments yielded and the invocations made so
  far. A local that may be read before its first assignment is an option, \<open>None\<close>
  while unbound.
\<close>

record frame = request +
  out :: "string list"
  calls :: "call list"
  user_intent :: "string option"
  intent_data :: "intent_data option"
  plan_data :: "plan_data option"
  enriched_query :: string
  search_queries :: "string list"
  resource_group_name :: "string option"
  all_contexts :: "string list"
  combined_web_context :: "string option"
  combined_youtube_context :: "string option"

definition yield :: "string \<Rightarrow> frame \<Rightarrow> frame" where
  "yield s f = f\<lparr>out := out f @ [s]\<rparr>"

definition yield_if :: "bool \<Rightarrow> string \<Rightarrow> frame \<Rightarrow> frame" where
  "yield_if b s f = (if b then yield s f else f)"

definition invoke :: "call \<Rightarrow> frame \<Rightarrow> frame" where
  "invoke c f = f\<lparr>calls := calls f @ [c]\<rparr>"

definition send_step_with_code :: "env \<Rightarrow> string \<Rightarrow> string \<Rightarrow> string" where
  "send_step_with_code env step_name code = ''### '' @ step_name @ ''#code#'' @ b64encode env code"

definition status_line :: "string \<Rightarrow> string" where
  \<comment> \<open>\<^verbatim>\<open>f"data: ### {text}\n\n"\<close>\<close>
  "status_line text = ''data: ### '' @ text @ NL @ NL"

definition step_line :: "env \<Rightarrow> string \<Rightarrow> string \<Rightarrow> string" where
  \<comment> \<open>\<^verbatim>\<open>f"data: {self.send_step_with_code(step_name, code)}\n\n"\<close>\<close>
  "step_line env step_name code = ''data: '' @ send_step_with_code env step_name code @ NL @ NL"

definition progress :: "string \<Rightarrow> nat \<Rightarrow> nat \<Rightarrow> string \<Rightarrow> string" where
  \<comment> \<open>\<^verbatim>\<open>f"{label} ({i+1}/{len(search_queries)}): {query}"\<close>\<close>
  "progress label i n query =
     label @ '' ('' @ str_nat (i + 1) @ ''/'' @ str_nat n @ ''): '' @ query"

definition last_user_message_of :: "ChatMessage list \<Rightarrow> string" where
  \<comment> \<open>lines 165--169\<close>
  "last_user_message_of msgs =
     (case filter (\<lambda>msg. role msg = ''user'') (rev msgs) of
        [] \<Rightarrow> ''No question provided''
      | msg # _ \<Rightarrow> content msg)"

definition initial_frame :: "request \<Rightarrow> frame" where
  "initial_frame rq =
     request.extend rq
       (frame.fields [] [] None None None [] [] None [] None None)"

subsection \<open>Intent analysis and search planning (lines 188--269)\<close>

definition plan_stage :: "env \<Rightarrow> locale_msg \<Rightarrow> string \<Rightarrow> frame \<Rightarrow> exn option \<times> frame" where
  \<comment> \<open>the body of \<^verbatim>\<open>if planning:\<close>, lines 235--261\<close>
  "plan_stage env LOCALE_MSG ui f0 =
     (let f1 = yield_if (stream f0) (status_line (search_planning LOCALE_MSG)) f0;
          f2 = invoke (GenerateSearchPlan ui (enriched_query f1) (locale_tag f1) (7 / 10)) f1
      in case generate_search_plan env ui (enriched_query f2) (locale_tag f2) of
           Inl e \<Rightarrow> (Some e, f2)
         | Inr plan_result \<Rightarrow>
             (let f3 = (case plan_result of
                          Some pd \<Rightarrow>
                            f2\<lparr>plan_data := Some pd,
                               search_queries := get_default (p_search_queries pd) [enriched_query f2]\<rparr>
                        | None \<Rightarrow> f2\<lparr>search_queries := [enriched_query f2]\<rparr>)
              in if verbose f3 \<and> stream f3 then
                   (case plan_data f3 of
                      None \<Rightarrow> (Some (UnboundLocalError ''plan_data''), f3)
                    | Some pd \<Rightarrow>
                        (None, yield (step_line env (plan_done LOCALE_MSG) (json_dumps_plan env pd)) f3))
                 else (None, f3)))"

definition intent_try :: "env \<Rightarrow> string \<Rightarrow> locale_msg \<Rightarrow> frame \<Rightarrow> exn option \<times> frame" where
  \<comment> \<open>the body of the \<^verbatim>\<open>try\<close> of lines 193--261; \<open>Some e\<close> when it raises \<open>e\<close>\<close>
  "intent_try env last_user_message LOCALE_MSG f0 =
     (let f1 = invoke (AnalyzeIntent last_user_message (locale_tag f0) (3 / 10)) f0
      in case analyze_intent env last_user_message (locale_tag f1) of
           Inl e \<Rightarrow> (Some e, f1)
         | Inr intent_result \<Rightarrow>
             (let f2 = (case intent_result of
                          None \<Rightarrow> f1
                        | Some d \<Rightarrow>
                            f1\<lparr>intent_data := Some d,
                               user_intent := Some (get_default (i_user_intent d) ''general_query''),
                               enriched_query := get_default (i_enriched_query d) last_user_message,
                               search_queries := [get_default (i_search_query d) last_user_message],
                               resource_group_name := i_resource_group_name d\<rparr>)
              in case (if verbose f2 \<and> stream f2 then
                         (case intent_data f2 of
                            None \<Rightarrow> Inl (UnboundLocalError ''intent_data'')
                          | Some d \<Rightarrow>
                              Inr (yield (step_line env (analyze_complete LOCALE_MSG)
                                            (json_dumps_intent env d)) f2))
                       else Inr f2) of
                   Inl e \<Rightarrow> (Some e, f2)
                 | Inr f3 \<Rightarrow>
                     (case user_intent f3 of
                        None \<Rightarrow> (Some (UnboundLocalError ''user_intent''), f3)
                      | Some ui \<Rightarrow>
                          (let f4 = (if ui = ''small_talk'' then
                                       yield_if (stream f3) (status_line (intent_small_talk LOCALE_MSG))
                                         (f3\<lparr>planning := False,
                                             include_web_search := False,
                                             include_ytb_search := False\<rparr>)
                                     else f3)
                           in if planning f4 then plan_stage env LOCALE_MSG ui f4 else (None, f4)))))"

definition intent_stage :: "env \<Rightarrow> string \<Rightarrow> locale_msg \<Rightarrow> frame \<Rightarrow> frame" where
  \<comment> \<open>lines 193--269 with the handler: fall back to the one-element plan\<close>
  "intent_stage env last_user_message LOCALE_MSG f0 =
     (case intent_try env last_user_message LOCALE_MSG f0 of
        (None, f) \<Rightarrow> f
      | (Some e, f) \<Rightarrow>
          yield_if (stream f) (status_line ''Intent analysis failed, using fallback'')
            (f\<lparr>search_queries := [enriched_query f]\<rparr>))"

subsection \<open>Web search (lines 275--356)\<close>

fun keyword_lines :: "string \<Rightarrow> nat \<Rightarrow> string list \<Rightarrow> string" where
  \<comment> \<open>lines 284--285: one \<^verbatim>\<open>f"{i}: {search_keyword}: {query} <br>"\<close> per query\<close>
  "keyword_lines kw i [] = []"
| "keyword_lines kw i (query # qs) =
     str_nat i @ '': '' @ kw @ '': '' @ query @ '' <br>'' @ keyword_lines kw (Suc i) qs"

definition grounding_branch :: "env \<Rightarrow> locale_msg \<Rightarrow> frame \<Rightarrow> exn option \<times> frame" where
  \<comment> \<open>lines 280--309: one call carrying the whole query list\<close>
  "grounding_branch env LOCALE_MSG f0 =
     (let text_appended_query =
            searching LOCALE_MSG @ ''...<br>''
              @ keyword_lines (search_keyword LOCALE_MSG) 0 (search_queries f0);
          f1 = yield_if (stream f0) (status_line text_appended_query) f0;
          f2 = invoke (GroundingSearchMultiQuery (search_queries f1) (max_tokens f1)
                         (temperature f1) (locale_tag f1)) f1
      in case grounding_search_multi_query env (search_queries f2) (max_tokens f2)
                (temperature f2) (locale_tag f2) of
           Inl e \<Rightarrow> (Some e, f2)
         | Inr grounding_result \<Rightarrow>
             (None,
              if truthy grounding_result
              then f2\<lparr>all_contexts := all_contexts f2
                        @ [''=== Grounding Search ==='' @ NL @ get_default grounding_result []]\<rparr>
              else f2))"

fun web_loop ::
  "env \<Rightarrow> locale_msg \<Rightarrow> nat \<Rightarrow> nat \<Rightarrow> string list \<Rightarrow> string list \<Rightarrow> frame
     \<Rightarrow> exn option \<times> string list \<times> frame" where
  \<comment> \<open>lines 319--343; \<open>n\<close> is \<^verbatim>\<open>len(search_queries)\<close>, the list argument the queries
      still to process, \<open>web_search_contexts\<close> the accumulator\<close>
  "web_loop env LOCALE_MSG n i [] web_search_contexts f = (None, web_search_contexts, f)"
| "web_loop env LOCALE_MSG n i (query # qs) web_search_contexts f =
     (let f1 = yield_if (stream f) (status_line (progress (searching LOCALE_MSG) i n query)) f;
          f2 = invoke (SearchSingleQuery query (locale_tag f1) 5 5000) f1
      in case search_single_query env query (locale_tag f2) of
           Inl e \<Rightarrow> (Some e, web_search_contexts, f2)
         | Inr search_result \<Rightarrow>
             web_loop env LOCALE_MSG n (Suc i) qs
               (if truthy search_result
                then web_search_contexts @ [get_default search_result []]
                else web_search_contexts) f2)"

definition crawling_branch :: "env \<Rightarrow> locale_msg \<Rightarrow> frame \<Rightarrow> exn option \<times> frame" where
  \<comment> \<open>lines 312--347: the block is appended once, after the loop\<close>
  "crawling_branch env LOCALE_MSG f0 =
     (case web_loop env LOCALE_MSG (length (search_queries f0)) 0 (search_queries f0) [] f0 of
        (Some e, web_search_contexts, f) \<Rightarrow> (Some e, f)
      | (None, web_search_contexts, f) \<Rightarrow>
          (None,
           if web_search_contexts \<noteq> []
           then f\<lparr>all_contexts := all_contexts f
                    @ [''=== Web Search ==='' @ NL @ join (NL @ NL) web_search_contexts],
                  combined_web_context := Some (join (NL @ NL) web_search_contexts)\<rparr>
           else f))"

definition web_try :: "env \<Rightarrow> locale_msg \<Rightarrow> frame \<Rightarrow> exn option \<times> frame" where
  \<comment> \<open>the body of the \<^verbatim>\<open>try\<close> of lines 278--351\<close>
  "web_try env LOCALE_MSG f0 =
     (case (if search_engine f0 = BING_GROUNDING then grounding_branch env LOCALE_MSG f0
            else if search_engine f0 = BING_SEARCH_CRAWLING
                    \<or> search_engine f0 = BING_GROUNDING_CRAWLING
            then crawling_branch env LOCALE_MSG f0
            else (None, f0)) of
        (Some e, f) \<Rightarrow> (Some e, f)
      | (None, f) \<Rightarrow>
          (if verbose f \<and> stream f then
             (case combined_web_context f of
                None \<Rightarrow> (Some (UnboundLocalError ''combined_web_context''), f)
              | Some c \<Rightarrow> (None, yield (step_line env (search_done LOCALE_MSG) c) f))
           else (None, f)))"

definition web_stage :: "env \<Rightarrow> locale_msg \<Rightarrow> frame \<Rightarrow> frame" where
  "web_stage env LOCALE_MSG f0 =
     (if include_web_search f0 \<and> search_queries f0 \<noteq> [] then
        (case web_try env LOCALE_MSG f0 of
           (None, f) \<Rightarrow> f
         | (Some e, f) \<Rightarrow> yield_if (stream f) (status_line (''Error during web search: '' @ e)) f)
      else f0)"

subsection \<open>Video search (lines 358--402)\<close>

fun youtube_loop ::
  "env \<Rightarrow> locale_msg \<Rightarrow> nat \<Rightarrow> nat \<Rightarrow> string list \<Rightarrow> string list \<Rightarrow> frame
     \<Rightarrow> exn option \<times> frame" where
  \<comment> \<open>lines 363--394: the argument of the search is \<^verbatim>\<open>enriched_query\<close> (line 373), and the
      block of lines 392--394 is inside the loop body\<close>
  "youtube_loop env LOCALE_MSG n i [] youtube_search_contexts f = (None, f)"
| "youtube_loop env LOCALE_MSG n i (query # qs) youtube_search_contexts f =
     (let f1 = yield_if (stream f)
                 (status_line (progress (searching_YouTube LOCALE_MSG) i n query)) f;
          f2 = invoke (if include_mcp_server f1 then YoutubeMcpSearchVideos (enriched_query f1)
                       else YoutubeSearchVideos (enriched_query f1)) f1
      in case (if include_mcp_server f2
               then youtube_mcp_search_youtube_videos env (enriched_query f2)
               else youtube_search_youtube_videos env (enriched_query f2)) of
           Inl e \<Rightarrow> (Some e, f2)
         | Inr mcp_result \<Rightarrow>
             (let youtube_search_contexts' =
                    (if truthy mcp_result
                     then youtube_search_contexts @ [get_default mcp_result []]
                     else youtube_search_contexts);
                  f3 = (if youtube_search_contexts' \<noteq> []
                        then f2\<lparr>all_contexts := all_contexts f2
                                  @ [''=== Youtube Search ==='' @ NL
                                       @ join (NL @ NL) youtube_search_contexts'],
                                combined_youtube_context :=
                                  Some (join (NL @ NL) youtube_search_contexts')\<rparr>
                        else f2)
              in youtube_loop env LOCALE_MSG n (Suc i) qs youtube_search_contexts' f3))"

definition youtube_try :: "env \<Rightarrow> locale_msg \<Rightarrow> frame \<Rightarrow> exn option \<times> frame" where
  \<comment> \<open>the body of the \<^verbatim>\<open>try\<close> of lines 361--397\<close>
  "youtube_try env LOCALE_MSG f0 =
     (case youtube_loop env LOCALE_MSG (length (search_queries f0)) 0 (search_queries f0) [] f0 of
        (Some e, f) \<Rightarrow> (Some e, f)
      | (None, f) \<Rightarrow>
          (if verbose f \<and> stream f then
             (case combined_youtube_context f of
                None \<Rightarrow> (Some (UnboundLocalError ''combined_youtube_context''), f)
              | Some c \<Rightarrow> (None, yield (step_line env (YouTube_done LOCALE_MSG) c) f))
           else (None, f)))"

definition youtube_stage :: "env \<Rightarrow> locale_msg \<Rightarrow> frame \<Rightarrow> frame" where
  "youtube_stage env LOCALE_MSG f0 =
     (if include_ytb_search f0 then
        (case youtube_try env LOCALE_MSG f0 of
           (None, f) \<Rightarrow> f
         | (Some e, f) \<Rightarrow>
             yield_if (stream f) (status_line ('': Error during Youtube MCP search: '' @ e)) f)
      else f0)"

subsection \<open>Indexed-document search: the stage (lines 404--508)\<close>

fun ai_search_loop ::
  "env \<Rightarrow> locale_msg \<Rightarrow> nat \<Rightarrow> nat \<Rightarrow> string list \<Rightarrow> doc_state \<Rightarrow> frame
     \<Rightarrow> exn option \<times> doc_state \<times> frame" where
  \<comment> \<open>lines 415--489: search, process the result, then the check of lines 487--489\<close>
  "ai_search_loop env LOCALE_MSG n i [] st f = (None, st, f)"
| "ai_search_loop env LOCALE_MSG n i (query # qs) st f =
     (let f1 = yield_if (stream f)
                 (status_line (progress (ai_search_context LOCALE_MSG) i n query)) f;
          f2 = invoke (SearchDocuments query ''semantic'' 3 True) f1
      in case search_documents env query of
           Inl e \<Rightarrow> (Some e, st, f2)
         | Inr ai_search_result \<Rightarrow>
             (let st' = process_result i ai_search_result st
              in if current_total_length st' \<ge> MAX_CONTEXT_LENGTH then (None, st', f2)
                 else ai_search_loop env LOCALE_MSG n (Suc i) qs st' f2))"

definition truncated_for_display :: "string \<Rightarrow> string" where
  \<comment> \<open>line 502\<close>
  "truncated_for_display combined_doc_context =
     (if length combined_doc_context > 200
      then take 200 combined_doc_context @ ''... [truncated for display]''
      else combined_doc_context)"

definition ai_search_try :: "env \<Rightarrow> locale_msg \<Rightarrow> frame \<Rightarrow> exn option \<times> frame" where
  \<comment> \<open>the body of the \<^verbatim>\<open>try\<close> of lines 407--503\<close>
  "ai_search_try env LOCALE_MSG f0 =
     (case ai_search_loop env LOCALE_MSG (length (search_queries f0)) 0 (search_queries f0)
             doc_state_init f0 of
        (Some e, st, f) \<Rightarrow> (Some e, f)
      | (None, st, f) \<Rightarrow>
          (let combined_doc_context =
                 (if doc_contexts st \<noteq> [] then join (NL @ NL) (doc_contexts st) else []);
               f1 = (if doc_contexts st \<noteq> []
                     then f\<lparr>all_contexts := all_contexts f
                              @ [''=== Document Context ==='' @ NL @ combined_doc_context]\<rparr>
                     else f)
           in (None,
               if verbose f1 \<and> stream f1 \<and> combined_doc_context \<noteq> []
               then yield (step_line env (ai_search_context_done LOCALE_MSG)
                             (truncated_for_display combined_doc_context)) f1
               else f1)))"

definition ai_search_stage :: "env \<Rightarrow> locale_msg \<Rightarrow> frame \<Rightarrow> frame" where
  "ai_search_stage env LOCALE_MSG f0 =
     (if include_ai_search f0 then
        (case ai_search_try env LOCALE_MSG f0 of
           (None, f) \<Rightarrow> f
         | (Some e, f) \<Rightarrow> yield_if (stream f) (status_line (''Error processing documents: '' @ e)) f)
      else f0)"

subsection \<open>Prompt assembly and generation (lines 510--577)\<close>

definition build_answer_messages :: "env \<Rightarrow> string \<Rightarrow> string \<Rightarrow> frame \<Rightarrow> answer_messages" where
  \<comment> \<open>lines 523--552\<close>
  "build_answer_messages env ui contexts_text f =
     (if ui = ''general_query'' then
        [(''system'', GENERAL_ANSWER_PROMPT env (current_date_now env) contexts_text
                        (enriched_query f) (locale_tag f)),
         (''user'', enriched_query f)]
      else if ui = ''product_query'' then
        [(''system'', PRODUCT_ANSWER_PROMPT env (current_date_now env) contexts_text
                        (enriched_query f) (locale_tag f)),
         (''user'', enriched_query f)]
      else
        [(''system'', GENERAL_ANSWER_PROMPT env (current_date_now env) contexts_text
                        (enriched_query f) (locale_tag f)),
         (''user'', enriched_query f)])"

definition finish :: "env \<Rightarrow> frame \<Rightarrow> frame" where
  \<comment> \<open>lines 572--577; \<^verbatim>\<open>ttft_time\<close> has been assigned on both branches before\<close>
  "finish env f0 =
     (let f1 = yield NL f0
      in if elapsed_time f1 then
           yield (''Plan search response generated successfully in '' @ ttft_total_seconds env
                    @ '' seconds '' @ NL)
             (yield NL f1)
         else f1)"

definition answer_stage :: "env \<Rightarrow> locale_msg \<Rightarrow> frame \<Rightarrow> exn option \<times> frame" where
  \<comment> \<open>lines 510--577\<close>
  "answer_stage env LOCALE_MSG f0 =
     (let f1 = yield_if (stream f0) (status_line (answering LOCALE_MSG)) f0;
          f2 = (if all_contexts f1 = []
                then f1\<lparr>all_contexts := [''No relevant context found.'']\<rparr> else f1);
          contexts_text = join NL (all_contexts f2);
          f3 = yield ('' '' @ NL) f2
      in case user_intent f3 of
           None \<Rightarrow> (Some (UnboundLocalError ''user_intent''), f3)
         | Some ui \<Rightarrow>
             (let answer_messages = build_answer_messages env ui contexts_text f3;
                  f4 = invoke (ChatCompletionsCreate answer_messages (max_tokens f3)
                                 (temperature f3) (stream f3)) f3
              in if stream f4 then
                   (case create_stream env answer_messages (max_tokens f4) (temperature f4) of
                      Inl e \<Rightarrow> (Some e, f4)
                    | Inr (chunks, failure) \<Rightarrow>
                        (let f5 = f4\<lparr>out := out f4
                                      @ map (\<lambda>c. get_default c []) (filter truthy chunks)\<rparr>
                         in case failure of
                              Some e \<Rightarrow> (Some e, f5)
                            | None \<Rightarrow> (None, finish env f5)))
                 else
                   (case create_completion env answer_messages (max_tokens f4) (temperature f4) of
                      Inl e \<Rightarrow> (Some e, f4)
                    | Inr message_content \<Rightarrow> (None, finish env (yield message_content f4)))))"

subsection \<open>\<^verbatim>\<open>generate_response\<close>\<close>

definition lookup_locale_msg :: "env \<Rightarrow> string option \<Rightarrow> locale_msg \<Rightarrow> locale_msg" where
  \<comment> \<open>line 172: \<^verbatim>\<open>LOCALE_MESSAGES.get(locale, ko_KR)\<close>\<close>
  "lookup_locale_msg env l ko_KR =
     (case l of None \<Rightarrow> ko_KR | Some tag \<Rightarrow> get_default (LOCALE_MESSAGES env tag) ko_KR)"

definition prologue :: "env \<Rightarrow> locale_msg \<Rightarrow> string \<Rightarrow> frame \<Rightarrow> frame" where
  \<comment> \<open>lines 177--190: defaults, the first progress line, the initial queries\<close>
  "prologue env LOCALE_MSG last_user_message f0 =
     (let f1 = f0\<lparr>max_tokens := Some (get_default (max_tokens f0) (MAX_TOKENS env)),
                  temperature := Some (get_default (temperature f0) (DEFAULT_TEMPERATURE env))\<rparr>;
          f2 = yield_if (stream f1) (status_line (analyzing LOCALE_MSG)) f1
      in f2\<lparr>enriched_query := last_user_message, search_queries := [],
            resource_group_name := None\<rparr>)"

definition pipeline :: "env \<Rightarrow> locale_msg \<Rightarrow> string \<Rightarrow> frame \<Rightarrow> exn option \<times> frame" where
  \<comment> \<open>lines 177--577: the stages in their fixed order\<close>
  "pipeline env LOCALE_MSG last_user_message f0 =
     (let f3 = prologue env LOCALE_MSG last_user_message f0;
          f4 = intent_stage env last_user_message LOCALE_MSG f3;
          f5 = f4\<lparr>all_contexts := []\<rparr>;
          f6 = web_stage env LOCALE_MSG f5;
          f7 = youtube_stage env LOCALE_MSG f6;
          f8 = ai_search_stage env LOCALE_MSG f7
      in answer_stage env LOCALE_MSG f8)"

definition generate_response_try :: "env \<Rightarrow> request \<Rightarrow> exn option \<times> frame" where
  \<comment> \<open>the body of the outer \<^verbatim>\<open>try\<close>, lines 160--577\<close>
  "generate_response_try env rq =
     (let f0 = initial_frame rq;
          last_user_message = last_user_message_of (messages f0)
      in case LOCALE_MESSAGES env ''ko-KR'' of
           None \<Rightarrow> (Some (KeyError ''ko-KR''), f0)
         | Some ko_KR \<Rightarrow>
             (let LOCALE_MSG = lookup_locale_msg env (locale_tag f0) ko_KR
              in if last_user_message = ''No question provided''
                 then (None, yield (input_needed LOCALE_MSG) f0)
                 else pipeline env LOCALE_MSG last_user_message f0))"

definition generate_response :: "env \<Rightarrow> request \<Rightarrow> string list \<times> call list" where
  \<comment> \<open>the fragments yielded and the invocations made; the handler of lines 579--582 turns an
      exception of the body into one last fragment\<close>
  "generate_response env rq =
     (case generate_response_try env rq of
        (None, f) \<Rightarrow> (out f, calls f)
      | (Some e, f) \<Rightarrow> (out f @ [''Error: '' @ e], calls f))"

subsection \<open>Observations on a run\<close>

fun is_plan_call :: "call \<Rightarrow> bool" where
  "is_plan_call (GenerateSearchPlan ui q l t) = True"
| "is_plan_call c = False"

fun is_web_call :: "call \<Rightarrow> bool" where
  "is_web_call (GroundingSearchMultiQuery qs m t l) = True"
| "is_web_call (SearchSingleQuery q l k n) = True"
| "is_web_call c = False"

fun is_video_call :: "call \<Rightarrow> bool" where
  "is_video_call (YoutubeMcpSearchVideos q) = True"
| "is_video_call (YoutubeSearchVideos q) = True"
| "is_video_call c = False"

fun is_generation_call :: "call \<Rightarrow> bool" where
  "is_generation_call (ChatCompletionsCreate ms m t s) = True"
| "is_generation_call c = False"

definition is_status_fragment :: "string \<Rightarrow> bool" where
  \<comment> \<open>a progress line of the transport framing\<close>
  "is_status_fragment x = prefix ''data: '' x"

definition is_error_fragment :: "string \<Rightarrow> bool" where
  "is_error_fragment x = prefix ''Error: '' x"

definition status_only :: "frame \<Rightarrow> bool" where
  \<comment> \<open>so far only progress lines were yielded and the completion client was not invoked\<close>
  "status_only f =
     (list_all is_status_fragment (out f) \<and> list_all (\<lambda>c. \<not> is_generation_call c) (calls f))"

subsection \<open>A concrete environment for the examples\<close>

definition example_messages :: locale_msg where
  "example_messages =
     \<lparr>input_needed = ''Please enter a question.'', analyzing = ''Analyzing'',
      analyze_complete = ''Analyzed'', intent_small_talk = ''Small talk'',
      search_planning = ''Planning'', plan_done = ''Planned'', searching = ''Searching'',
      search_keyword = ''keyword'', search_done = ''Searched'',
      searching_YouTube = ''Searching YouTube'', YouTube_done = ''YouTube searched'',
      ai_search_context = ''Searching documents'', ai_search_context_done = ''Documents searched'',
      answering = ''Answering''\<rparr>"

definition example_env :: env where
  \<comment> \<open>every service answers with an empty result; the templates return the context text\<close>
  "example_env =
     \<lparr>LOCALE_MESSAGES = [''ko-KR'' \<mapsto> example_messages],
      MAX_TOKENS = 1000,
      DEFAULT_TEMPERATURE = 7 / 10,
      current_date_now = ''2025-01-01'',
      ttft_total_seconds = ''1.5'',
      GENERAL_ANSWER_PROMPT = (\<lambda>current_date contexts question l. contexts),
      PRODUCT_ANSWER_PROMPT = (\<lambda>current_date contexts question l. contexts),
      json_dumps_intent = (\<lambda>d. ''{}''),
      json_dumps_plan = (\<lambda>d. ''{}''),
      b64encode = (\<lambda>s. s),
      analyze_intent = (\<lambda>q l. Inr None),
      generate_search_plan = (\<lambda>ui q l. Inr None),
      grounding_search_multi_query = (\<lambda>qs m t l. Inr None),
      search_single_query = (\<lambda>q l. Inr None),
      youtube_mcp_search_youtube_videos = (\<lambda>q. Inr None),
      youtube_search_youtube_videos = (\<lambda>q. Inr None),
      search_documents = (\<lambda>q. Inr None),
      create_completion = (\<lambda>ms m t. Inr ''answer''),
      create_stream = (\<lambda>ms m t. Inr ([Some ''ans'', None, Some ''wer''], None))\<rparr>"

definition example_request :: "ChatMessage list \<Rightarrow> request" where
  \<comment> \<open>the given messages, every other parameter at its default but \<^verbatim>\<open>elapsed_time\<close>\<close>
  "example_request msgs =
     \<lparr>messages = msgs, max_tokens = None, temperature = None, query_rewrite = True,
      planning = True, search_engine = BING_SEARCH_CRAWLING, stream = False,
      elapsed_time = False, locale_tag = Some ''ko-KR'', include_web_search = True,
      include_ytb_search = True, include_mcp_server = True, include_ai_search = True,
      verbose = False\<rparr>"

definition user_says :: "string \<Rightarrow> ChatMessage list" where
  "user_says text = [\<lparr>role = ''user'', content = text\<rparr>]"

definition intent_of :: "string \<Rightarrow> string \<Rightarrow> intent_data" where
  \<comment> \<open>an intent analysis with the given intent and the given text as both queries\<close>
  "intent_of ui q =
     \<lparr>i_user_intent = Some ui, i_enriched_query = Some q, i_search_query = Some q,
      i_resource_group_name = None\<rparr>"

definition document_with :: "string \<Rightarrow> string \<Rightarrow> document" where
  \<comment> \<open>a document with an id and a content, nothing else\<close>
  "document_with ident text =
     \<lparr>d_id = Some ident, d_title = None, d_url = None, d_content = Some text, d_summary = None\<rparr>"

definition summary_only :: "string \<Rightarrow> document" where
  \<comment> \<open>a document with a summary and nothing else\<close>
  "summary_only text =
     \<lparr>d_id = None, d_title = None, d_url = None, d_content = None, d_summary = Some text\<rparr>"

definition found :: "document list \<Rightarrow> exn + search_data option" where
  "found docs = Inr (Some \<lparr>status = Some ''success'', documents = Some docs\<rparr>)"

definition planned_env :: env where
  \<comment> \<open>the analysis rewrites the question to \<open>e\<close>, the planner plans the queries \<open>a\<close> and
      \<open>b\<close>, and every video search finds \<open>v\<close>\<close>
  "planned_env =
     example_env
       \<lparr>analyze_intent := (\<lambda>q l. Inr (Some (intent_of ''general_query'' ''e''))),
        generate_search_plan := (\<lambda>ui q l. Inr (Some \<lparr>p_search_queries = Some [''a'', ''b'']\<rparr>)),
        youtube_mcp_search_youtube_videos := (\<lambda>q. Inr (Some ''v'')),
        youtube_search_youtube_videos := (\<lambda>q. Inr (Some ''v''))\<rparr>"

definition ceiling_queries :: "string list" where
  "ceiling_queries =
     [''q00'', ''q01'', ''q02'', ''q03'', ''q04'', ''q05'', ''q06'', ''q07'', ''q08'', ''q09'',
      ''q10'', ''q11'', ''q12'', ''q13'', ''q14'', ''q15'', ''q16'', ''q17'', ''q18'', ''q19'',
      ''q20'']"

definition ceiling_search :: "string \<Rightarrow> exn + search_data option" where
  \<comment> \<open>two documents of 10000 characters for each of the first nineteen queries; then one of
      10000 and one of 12000; then a short one\<close>
  "ceiling_search q =
     found
       (if q = ''q20'' then [document_with ''late'' ''late document'']
        else if q = ''q19''
        then [document_with ''q19a'' (replicate 10000 CHR ''x''),
              document_with ''q19b'' (replicate 12000 CHR ''x'')]
        else [document_with (q @ ''a'') (replicate 10000 CHR ''x''),
              document_with (q @ ''b'') (replicate 10000 CHR ''x'')])"

definition ceiling_env :: env where
  "ceiling_env =
     example_env
       \<lparr>analyze_intent := (\<lambda>q l. Inr (Some (intent_of ''general_query'' q))),
        generate_search_plan := (\<lambda>ui q l. Inr (Some \<lparr>p_search_queries = Some ceiling_queries\<rparr>)),
        search_documents := ceiling_search\<rparr>"

definition documents_only :: "request \<Rightarrow> request" where
  \<comment> \<open>the request with web and video search switched off\<close>
  "documents_only rq = rq\<lparr>include_web_search := False, include_ytb_search := False\<rparr>"

section \<open>Properties\<close>

subsection \<open>Progress lines and invocations\<close>

lemma yield_unchanged [simp]:
  "messages (yield x f) = messages f"
  "max_tokens (yield x f) = max_tokens f"
  "temperature (yield x f) = temperature f"
  "query_rewrite (yield x f) = query_rewrite f"
  "planning (yield x f) = planning f"
  "search_engine (yield x f) = search_engine f"
  "stream (yield x f) = stream f"
  "elapsed_time (yield x f) = elapsed_time f"
  "locale_tag (yield x f) = locale_tag f"
  "include_web_search (yield x f) = include_web_search f"
  "include_ytb_search (yield x f) = include_ytb_search f"
  "include_mcp_server (yield x f) = include_mcp_server f"
  "include_ai_search (yield x f) = include_ai_search f"
  "verbose (yield x f) = verbose f"
  "calls (yield x f) = calls f"
  "user_intent (yield x f) = user_intent f"
  "intent_data (yield x f) = intent_data f"
  "plan_data (yield x f) = plan_data f"
  "enriched_query (yield x f) = enriched_query f"
  "search_queries (yield x f) = search_queries f"
  "resource_group_name (yield x f) = resource_group_name f"
  "all_contexts (yield x f) = all_contexts f"
  "combined_web_context (yield x f) = combined_web_context f"
  "combined_youtube_context (yield x f) = combined_youtube_context f"
  by (simp_all add: yield_def)

lemma invoke_unchanged [simp]:
  "messages (invoke c f) = messages f"
  "max_tokens (invoke c f) = max_tokens f"
  "temperature (invoke c f) = temperature f"
  "query_rewrite (invoke c f) = query_rewrite f"
  "planning (invoke c f) = planning f"
  "search_engine (invoke c f) = search_engine f"
  "stream (invoke c f) = stream f"
  "elapsed_time (invoke c f) = elapsed_time f"
  "locale_tag (invoke c f) = locale_tag f"
  "include_web_search (invoke c f) = include_web_search f"
  "include_ytb_search (invoke c f) = include_ytb_search f"
  "include_mcp_server (invoke c f) = include_mcp_server f"
  "include_ai_search (invoke c f) = include_ai_search f"
  "verbose (invoke c f) = verbose f"
  "out (invoke c f) = out f"
  "user_intent (invoke c f) = user_intent f"
  "intent_data (invoke c f) = intent_data f"
  "plan_data (invoke c f) = plan_data f"
  "enriched_query (invoke c f) = enriched_query f"
  "search_queries (invoke c f) = search_queries f"
  "resource_group_name (invoke c f) = resource_group_name f"
  "all_contexts (invoke c f) = all_contexts f"
  "combined_web_context (invoke c f) = combined_web_context f"
  "combined_youtube_context (invoke c f) = combined_youtube_context f"
  by (simp_all add: invoke_def)

lemma yield_if_unchanged [simp]:
  "messages (yield_if b x f) = messages f"
  "max_tokens (yield_if b x f) = max_tokens f"
  "temperature (yield_if b x f) = temperature f"
  "query_rewrite (yield_if b x f) = query_rewrite f"
  "planning (yield_if b x f) = planning f"
  "search_engine (yield_if b x f) = search_engine f"
  "stream (yield_if b x f) = stream f"
  "elapsed_time (yield_if b x f) = elapsed_time f"
  "locale_tag (yield_if b x f) = locale_tag f"
  "include_web_search (yield_if b x f) = include_web_search f"
  "include_ytb_search (yield_if b x f) = include_ytb_search f"
  "include_mcp_server (yield_if b x f) = include_mcp_server f"
  "include_ai_search (yield_if b x f) = include_ai_search f"
  "verbose (yield_if b x f) = verbose f"
  "calls (yield_if b x f) = calls f"
  "user_intent (yield_if b x f) = user_intent f"
  "intent_data (yield_if b x f) = intent_data f"
  "plan_data (yield_if b x f) = plan_data f"
  "enriched_query (yield_if b x f) = enriched_query f"
  "search_queries (yield_if b x f) = search_queries f"
  "resource_group_name (yield_if b x f) = resource_group_name f"
  "all_contexts (yield_if b x f) = all_contexts f"
  "combined_web_context (yield_if b x f) = combined_web_context f"
  "combined_youtube_context (yield_if b x f) = combined_youtube_context f"
  by (simp_all add: yield_if_def)


lemma yield_out [simp]: "out (yield x f) = out f @ [x]"
  by (simp add: yield_def)

lemma yield_if_out [simp]: "out (yield_if b x f) = (if b then out f @ [x] else out f)"
  by (simp add: yield_if_def)

lemma invoke_calls [simp]: "calls (invoke c f) = calls f @ [c]"
  by (simp add: invoke_def)

lemma is_status_line [simp]: "is_status_fragment (status_line t)"
  by (simp add: is_status_fragment_def status_line_def)

lemma is_status_step [simp]: "is_status_fragment (step_line env n c)"
  by (simp add: is_status_fragment_def step_line_def)

lemma status_only_yield [simp]: "is_status_fragment x \<Longrightarrow> status_only (yield x f) = status_only f"
  by (simp add: status_only_def)

lemma status_only_yield_if [simp]:
  "is_status_fragment x \<Longrightarrow> status_only (yield_if b x f) = status_only f"
  by (simp add: status_only_def)

lemma status_only_invoke [simp]:
  "\<not> is_generation_call c \<Longrightarrow> status_only (invoke c f) = status_only f"
  by (simp add: status_only_def)

lemma status_only_update [simp]:
  "status_only (f\<lparr>planning := a1\<rparr>) = status_only f"
  "status_only (f\<lparr>include_web_search := a2\<rparr>) = status_only f"
  "status_only (f\<lparr>include_ytb_search := a3\<rparr>) = status_only f"
  "status_only (f\<lparr>user_intent := a4\<rparr>) = status_only f"
  "status_only (f\<lparr>intent_data := a5\<rparr>) = status_only f"
  "status_only (f\<lparr>plan_data := a6\<rparr>) = status_only f"
  "status_only (f\<lparr>enriched_query := a7\<rparr>) = status_only f"
  "status_only (f\<lparr>search_queries := a8\<rparr>) = status_only f"
  "status_only (f\<lparr>resource_group_name := a9\<rparr>) = status_only f"
  "status_only (f\<lparr>all_contexts := b1\<rparr>) = status_only f"
  "status_only (f\<lparr>combined_web_context := b2\<rparr>) = status_only f"
  "status_only (f\<lparr>combined_youtube_context := b3\<rparr>) = status_only f"
  "status_only (f\<lparr>max_tokens := b4\<rparr>) = status_only f"
  "status_only (f\<lparr>temperature := b5\<rparr>) = status_only f"
  by (simp_all add: status_only_def)

lemma status_only_plan_stage: "status_only f \<Longrightarrow> status_only (snd (plan_stage env L ui f))"
  by (auto simp: plan_stage_def Let_def split: sum.splits option.splits)

lemma status_only_intent_try: "status_only f \<Longrightarrow> status_only (snd (intent_try env q L f))"
  by (auto simp: intent_try_def Let_def status_only_plan_stage split: sum.splits option.splits)

lemma status_only_intent_stage: "status_only f \<Longrightarrow> status_only (intent_stage env q L f)"
  using status_only_intent_try[of f env q L]
  by (auto simp: intent_stage_def split: prod.splits option.splits)

lemma status_only_web_loop:
  "status_only f \<Longrightarrow> web_loop env L n i qs acc f = (r, acc', f') \<Longrightarrow> status_only f'"
proof (induction qs arbitrary: i acc f)
  case Nil
  then show ?case by simp
next
  case (Cons query qs)
  let ?f2 = "invoke (SearchSingleQuery query (locale_tag f) 5 5000)
               (yield_if (stream f) (status_line (progress (searching L) i n query)) f)"
  have f2: "status_only ?f2" using Cons.prems(1) by simp
  show ?case
  proof (cases "search_single_query env query (locale_tag f)")
    case (Inl e)
    with Cons.prems(2) have "f' = ?f2" by (simp add: Let_def)
    with f2 show ?thesis by simp
  next
    case (Inr x)
    with Cons.prems(2) have "web_loop env L n (Suc i) qs
          (if truthy x then acc @ [get_default x []] else acc) ?f2 = (r, acc', f')"
      by (simp add: Let_def)
    with f2 show ?thesis by (rule Cons.IH)
  qed
qed

lemma status_only_grounding:
  "status_only f \<Longrightarrow> grounding_branch env L f = (r, f') \<Longrightarrow> status_only f'"
  by (auto simp: grounding_branch_def Let_def split: sum.splits)

lemma status_only_crawling:
  "status_only f \<Longrightarrow> crawling_branch env L f = (r, f') \<Longrightarrow> status_only f'"
  by (auto simp: crawling_branch_def split: prod.splits option.splits dest: status_only_web_loop)

lemma status_only_web_try:
  "status_only f \<Longrightarrow> web_try env L f = (r, f') \<Longrightarrow> status_only f'"
  by (auto simp: web_try_def split: prod.splits option.splits if_splits
        dest: status_only_grounding status_only_crawling)

lemma status_only_web_stage: "status_only f \<Longrightarrow> status_only (web_stage env L f)"
  by (auto simp: web_stage_def split: prod.splits option.splits dest: status_only_web_try)

lemma status_only_youtube_step:
  assumes f: "status_only f"
    and run: "youtube_loop env L n i (query # qs) acc f = (r, f')"
    and IH: "\<And>i acc f. status_only f \<Longrightarrow> youtube_loop env L n i qs acc f = (r, f') \<Longrightarrow> status_only f'"
  shows "status_only f'"
proof -
  let ?c = "if include_mcp_server f then YoutubeMcpSearchVideos (enriched_query f)
            else YoutubeSearchVideos (enriched_query f)"
  let ?f2 = "invoke ?c (yield_if (stream f) (status_line (progress (searching_YouTube L) i n query)) f)"
  let ?res = "if include_mcp_server f then youtube_mcp_search_youtube_videos env (enriched_query f)
              else youtube_search_youtube_videos env (enriched_query f)"
  have f2: "status_only ?f2" using f by (simp split: if_splits)
  show ?thesis
  proof (cases ?res)
    case (Inl e)
    with run have "f' = ?f2" by (cases "include_mcp_server f") (simp_all add: Let_def cong: if_cong)
    with f2 show ?thesis by simp
  next
    case (Inr x)
    let ?acc = "if truthy x then acc @ [get_default x []] else acc"
    let ?f3 = "if ?acc \<noteq> []
               then ?f2\<lparr>all_contexts := all_contexts ?f2
                          @ [''=== Youtube Search ==='' @ NL @ join (NL @ NL) ?acc],
                        combined_youtube_context := Some (join (NL @ NL) ?acc)\<rparr>
               else ?f2"
    have f3: "status_only ?f3" using f2 by simp
    from Inr run have "youtube_loop env L n (Suc i) qs ?acc ?f3 = (r, f')"
      by (cases "include_mcp_server f") (simp_all add: Let_def cong: if_cong)
    with f3 show ?thesis by (rule IH)
  qed
qed

lemma status_only_youtube_loop:
  "status_only f \<Longrightarrow> youtube_loop env L n i qs acc f = (r, f') \<Longrightarrow> status_only f'"
proof (induction qs arbitrary: i acc f)
  case Nil
  then show ?case by simp
next
  case (Cons query qs)
  from Cons.prems Cons.IH show ?case by (rule status_only_youtube_step)
qed

lemma status_only_youtube_try:
  "status_only f \<Longrightarrow> youtube_try env L f = (r, f') \<Longrightarrow> status_only f'"
  by (auto simp: youtube_try_def split: prod.splits option.splits if_splits
        dest: status_only_youtube_loop)

lemma status_only_youtube_stage: "status_only f \<Longrightarrow> status_only (youtube_stage env L f)"
  by (auto simp: youtube_stage_def split: prod.splits option.splits dest: status_only_youtube_try)

lemma status_only_ai_search_loop:
  "status_only f \<Longrightarrow> ai_search_loop env L n i qs st f = (r, st', f') \<Longrightarrow> status_only f'"
proof (induction qs arbitrary: i st f)
  case Nil
  then show ?case by simp
next
  case (Cons query qs)
  let ?f2 = "invoke (SearchDocuments query ''semantic'' 3 True)
               (yield_if (stream f) (status_line (progress (ai_search_context L) i n query)) f)"
  have f2: "status_only ?f2" using Cons.prems(1) by simp
  show ?case
  proof (cases "search_documents env query")
    case (Inl e)
    with Cons.prems(2) have "f' = ?f2" by (simp add: Let_def)
    with f2 show ?thesis by simp
  next
    case (Inr x)
    show ?thesis
    proof (cases "current_total_length (process_result i x st) \<ge> MAX_CONTEXT_LENGTH")
      case True
      with Inr Cons.prems(2) have "f' = ?f2" by (simp add: Let_def)
      with f2 show ?thesis by simp
    next
      case False
      with Inr Cons.prems(2)
      have "ai_search_loop env L n (Suc i) qs (process_result i x st) ?f2 = (r, st', f')"
        by (simp add: Let_def)
      with f2 show ?thesis by (rule Cons.IH)
    qed
  qed
qed

lemma status_only_ai_search_try:
  "status_only f \<Longrightarrow> ai_search_try env L f = (r, f') \<Longrightarrow> status_only f'"
  by (auto simp: ai_search_try_def Let_def split: prod.splits option.splits if_splits
        dest: status_only_ai_search_loop)

lemma status_only_ai_search_stage: "status_only f \<Longrightarrow> status_only (ai_search_stage env L f)"
  by (auto simp: ai_search_stage_def split: prod.splits option.splits dest: status_only_ai_search_try)

subsection \<open>The two ceilings of the budgeter\<close>

lemma content_cut_with_marker:
  "d_content doc = Some c \<Longrightarrow> length c > MAX_DOCUMENT_LENGTH
     \<Longrightarrow> content_to_add doc = Some (take MAX_DOCUMENT_LENGTH c @ ''... [truncated]'')"
  by (auto simp: content_to_add_def)

lemma short_content_unchanged:
  "d_content doc = Some c \<Longrightarrow> c \<noteq> [] \<Longrightarrow> length c \<le> MAX_DOCUMENT_LENGTH
     \<Longrightarrow> content_to_add doc = Some c"
  by (simp add: content_to_add_def)

lemma overflowing_document_discarded:
  "doc_identity i k doc \<notin> seen_documents st \<Longrightarrow> content_to_add doc = Some c
     \<Longrightarrow> current_total_length st + length c > MAX_CONTEXT_LENGTH
     \<Longrightarrow> process_doc i k doc st
           = (Break, st\<lparr>seen_documents := insert (doc_identity i k doc) (seen_documents st)\<rparr>)"
  by (simp add: process_doc_def)

lemma process_doc_within_ceiling:
  "current_total_length st \<le> MAX_CONTEXT_LENGTH
     \<Longrightarrow> current_total_length (snd (process_doc i k doc st)) \<le> MAX_CONTEXT_LENGTH"
  by (simp add: process_doc_def Let_def split: option.splits)

lemma doc_loop_within_ceiling:
  "current_total_length st \<le> MAX_CONTEXT_LENGTH
     \<Longrightarrow> current_total_length (doc_loop i k docs st) \<le> MAX_CONTEXT_LENGTH"
proof (induction docs arbitrary: k st)
  case Nil
  then show ?case by simp
next
  case (Cons doc docs)
  obtain c st1 where step: "process_doc i k doc st = (c, st1)" by (cases "process_doc i k doc st")
  have "current_total_length st1 \<le> MAX_CONTEXT_LENGTH"
    using process_doc_within_ceiling[OF Cons.prems, of i k doc] step by simp
  then show ?case using step Cons.IH[of st1 "Suc k"] by (cases c) simp_all
qed

lemma process_result_within_ceiling:
  "current_total_length st \<le> MAX_CONTEXT_LENGTH
     \<Longrightarrow> current_total_length (process_result i res st) \<le> MAX_CONTEXT_LENGTH"
  by (simp add: process_result_def doc_loop_within_ceiling split: option.splits)

subsection \<open>The budgeter's set of seen identities\<close>

lemma process_doc_duplicate:
  "doc_identity i k doc \<in> seen_documents st \<Longrightarrow> process_doc i k doc st = (Next, st)"
  by (simp add: process_doc_def)

lemma process_doc_records:
  "doc_identity i k doc \<in> seen_documents (snd (process_doc i k doc st))"
  by (simp add: process_doc_def Let_def split: option.splits)

lemma process_doc_seen_mono:
  "seen_documents st \<subseteq> seen_documents (snd (process_doc i k doc st))"
  by (auto simp: process_doc_def Let_def split: option.splits)

lemma doc_loop_seen_mono: "seen_documents st \<subseteq> seen_documents (doc_loop i k docs st)"
proof (induction docs arbitrary: k st)
  case Nil
  show ?case by simp
next
  case (Cons doc docs)
  obtain c st1 where step: "process_doc i k doc st = (c, st1)" by (cases "process_doc i k doc st")
  have "seen_documents st \<subseteq> seen_documents st1"
    using process_doc_seen_mono[of st i k doc] step by simp
  moreover have "seen_documents st1 \<subseteq> seen_documents (doc_loop i (Suc k) docs st1)"
    by (rule Cons.IH)
  ultimately show ?case using step by (cases c) auto
qed

lemma process_result_seen_mono:
  "seen_documents st \<subseteq> seen_documents (process_result i res st)"
  by (simp add: process_result_def doc_loop_seen_mono split: option.splits)

lemma ai_search_loop_seen_mono:
  "seen_documents st \<subseteq> seen_documents (fst (snd (ai_search_loop env L n i qs st f)))"
proof (induction qs arbitrary: i st f)
  case Nil
  show ?case by simp
next
  case (Cons query qs)
  show ?case
  proof (cases "search_documents env query")
    case (Inl e)
    then show ?thesis by (simp add: Let_def)
  next
    case (Inr res)
    have mono: "seen_documents st \<subseteq> seen_documents (process_result i res st)"
      by (rule process_result_seen_mono)
    show ?thesis
    proof (cases "current_total_length (process_result i res st) \<ge> MAX_CONTEXT_LENGTH")
      case True
      with Inr mono show ?thesis by (simp add: Let_def)
    next
      case False
      let ?f2 = "invoke (SearchDocuments query ''semantic'' 3 True)
                   (yield_if (stream f) (status_line (progress (ai_search_context L) i n query)) f)"
      have "seen_documents (process_result i res st)
              \<subseteq> seen_documents (fst (snd (ai_search_loop env L n (Suc i) qs (process_result i res st) ?f2)))"
        by (rule Cons.IH)
      with mono False Inr show ?thesis by (simp add: Let_def)
    qed
  qed
qed

text \<open>
  Claim C3. Within one invocation a document whose identity equals that of a document
  handled before is excluded. Handling a document records its identity in
  \<open>seen_documents\<close>; no step of the stage (one document, the loop over the documents
  of a query, the result of a query, the loop over the queries) removes an identity; and in
  any state that holds the identity, handling a document with that identity returns the
  state as it is, so nothing is appended to \<open>doc_contexts\<close> and
  \<open>current_total_length\<close> is not increased, and the loop goes on with the next document.
  The identity is that of line 442: the id, else the title, else the url, else
  \<open>doc_<i>_<doc_idx>\<close>.
\<close>

theorem duplicate_document_excluded:
  "(doc_identity i' k' doc' = doc_identity i k doc
      \<and> seen_documents (snd (process_doc i k doc st)) \<subseteq> seen_documents st'
      \<longrightarrow> process_doc i' k' doc' st' = (Next, st'))
   \<and> seen_documents st \<subseteq> seen_documents (snd (process_doc i k doc st))
   \<and> seen_documents st \<subseteq> seen_documents (doc_loop i k docs st)
   \<and> seen_documents st \<subseteq> seen_documents (process_result i res st)
   \<and> seen_documents st \<subseteq> seen_documents (fst (snd (ai_search_loop env L n i qs st f)))"
proof -
  have "process_doc i' k' doc' st' = (Next, st')"
    if same: "doc_identity i' k' doc' = doc_identity i k doc"
      and later: "seen_documents (snd (process_doc i k doc st)) \<subseteq> seen_documents st'"
  proof -
    have "doc_identity i k doc \<in> seen_documents st'"
      using process_doc_records[of i k doc st] later by blast
    with same show ?thesis by (simp add: process_doc_duplicate)
  qed
  then show ?thesis
    using process_doc_seen_mono[of st i k doc] doc_loop_seen_mono[of st i k docs]
      process_result_seen_mono[of st i res] ai_search_loop_seen_mono[of st env L n i qs f]
    by blast
qed

theorem duplicate_document_excluded_witness:
  "doc_identity 1 1 (document_with ''a'' ''other text'') = doc_identity 0 1 (document_with ''a'' ''text'')
   \<and> process_doc 1 1 (document_with ''a'' ''other text'')
        (snd (process_doc 0 1 (document_with ''a'' ''text'') doc_state_init))
      = (Next, \<lparr>seen_documents = {''a''}, doc_contexts = [''text''], current_total_length = 4\<rparr>)"
proof -
  have same: "doc_identity 1 1 (document_with ''a'' ''other text'')
                = doc_identity 0 1 (document_with ''a'' ''text'')"
    by (simp add: doc_identity_def document_with_def)
  have st: "snd (process_doc 0 1 (document_with ''a'' ''text'') doc_state_init)
              = \<lparr>seen_documents = {''a''}, doc_contexts = [''text''], current_total_length = 4\<rparr>"
    by (simp add: process_doc_def doc_identity_def content_to_add_def document_with_def
          doc_state_init_def MAX_CONTEXT_LENGTH_def MAX_DOCUMENT_LENGTH_def Let_def)
  show ?thesis
    using duplicate_document_excluded[of 1 1 "document_with ''a'' ''other text''" 0 1
        "document_with ''a'' ''text''" doc_state_init
        "snd (process_doc 0 1 (document_with ''a'' ''text'') doc_state_init)"] same st
    by simp
qed

subsection \<open>Evaluation on concrete inputs\<close>

lemma example_env_fields:
  "LOCALE_MESSAGES example_env = [''ko-KR'' \<mapsto> example_messages]"
  "MAX_TOKENS example_env = 1000"
  "DEFAULT_TEMPERATURE example_env = 7 / 10"
  "current_date_now example_env = ''2025-01-01''"
  "ttft_total_seconds example_env = ''1.5''"
  "GENERAL_ANSWER_PROMPT example_env = (\<lambda>current_date contexts question l. contexts)"
  "PRODUCT_ANSWER_PROMPT example_env = (\<lambda>current_date contexts question l. contexts)"
  "json_dumps_intent example_env = (\<lambda>d. ''{}'')"
  "json_dumps_plan example_env = (\<lambda>d. ''{}'')"
  "b64encode example_env = (\<lambda>s. s)"
  "analyze_intent example_env = (\<lambda>q l. Inr None)"
  "generate_search_plan example_env = (\<lambda>ui q l. Inr None)"
  "grounding_search_multi_query example_env = (\<lambda>qs m t l. Inr None)"
  "search_single_query example_env = (\<lambda>q l. Inr None)"
  "youtube_mcp_search_youtube_videos example_env = (\<lambda>q. Inr None)"
  "youtube_search_youtube_videos example_env = (\<lambda>q. Inr None)"
  "search_documents example_env = (\<lambda>q. Inr None)"
  "create_completion example_env = (\<lambda>ms m t. Inr ''answer'')"
  "create_stream example_env = (\<lambda>ms m t. Inr ([Some ''ans'', None, Some ''wer''], None))"
  by (simp_all add: example_env_def)

text \<open>
  The definitions a run unfolds, and the congruence rules that make the simplifier
  evaluate the scrutinee of a \<open>case\<close> and the bound term of a \<open>let\<close> before the
  branches.
\<close>

lemmas run_defs =
  generate_response_def generate_response_try_def pipeline_def prologue_def
  lookup_locale_msg_def initial_frame_def request.extend_def frame.fields_def
  last_user_message_of_def intent_stage_def intent_try_def plan_stage_def web_stage_def
  web_try_def crawling_branch_def grounding_branch_def youtube_stage_def youtube_try_def
  ai_search_stage_def ai_search_try_def answer_stage_def build_answer_messages_def finish_def
  yield_def yield_if_def invoke_def process_result_def process_doc_def doc_identity_def
  content_to_add_def MAX_CONTEXT_LENGTH_def MAX_DOCUMENT_LENGTH_def doc_state_init_def
  example_env_fields example_request_def user_says_def intent_of_def documents_only_def
  document_with_def summary_only_def found_def Let_def

lemmas by_value =
  option.case_cong_weak sum.case_cong_weak prod.case_cong_weak list.case_cong_weak
  ctl.case_cong_weak let_weak_cong

lemma replicate_39:
  "replicate 39 r =
     [r, r, r, r, r, r, r, r, r, r, r, r, r, r, r, r, r, r, r, r,
      r, r, r, r, r, r, r, r, r, r, r, r, r, r, r, r, r, r, r]"
  by (simp add: eval_nat_numeral)

text \<open>
  Claim C1. The claim: once admitting a document would make the running length exceed
  400000, that document is discarded and no further document is admitted for the rest of
  the request, later queries included. The code stops the documents of the current
  query (the \<^verbatim>\<open>break\<close> of line 478), but the check that is to stop the queries (lines
  487--489) compares \<open>current_total_length \<ge> MAX_CONTEXT_LENGTH\<close>, which a discarded
  document does not make true. Here twenty queries bring 39 documents of 10000 characters
  and then one of 12000, cut to 10015: it does not fit after 390000 and is discarded; the
  twenty-first query is still searched and its document is admitted.
\<close>

theorem ceiling_admits_after_overflow:
  "all_contexts (snd (generate_response_try ceiling_env
       (documents_only (example_request (user_says ''question'')))))
   = [''=== Document Context ==='' @ NL
        @ join (NL @ NL) (replicate 39 (replicate 10000 CHR ''x'') @ [''late document''])]"
  apply (simp only: replicate_39)
  apply (simp add: run_defs ceiling_env_def ceiling_queries_def ceiling_search_def
        cong: by_value split del: if_split)
  done

text \<open>
  Claim C2. The claim: when the intent classification raises, the pipeline still reaches
  retrieval and the final generation call, with the raw message as \<open>enriched_query\<close>
  and as the only search query. The code does fall back to the raw message and does run
  the three retrieval stages with it, but \<open>user_intent\<close> is assigned only inside the
  \<^verbatim>\<open>try\<close> (line 207), so line 523 reads an unbound local: the completion client is
  never invoked and the run ends with the fragment of the outer handler.
\<close>

theorem classifier_failure_never_reaches_generation:
  "generate_response
     (example_env\<lparr>analyze_intent := (\<lambda>q l. Inl ''classifier unavailable'')\<rparr>)
     (example_request (user_says ''What is product X?''))
   = (['' '' @ NL, ''Error: '' @ UnboundLocalError ''user_intent''],
      [AnalyzeIntent ''What is product X?'' (Some ''ko-KR'') (3 / 10),
       SearchSingleQuery ''What is product X?'' (Some ''ko-KR'') 5 5000,
       YoutubeMcpSearchVideos ''What is product X?'',
       SearchDocuments ''What is product X?'' ''semantic'' 3 True])"
  by (simp add: run_defs cong: by_value split del: if_split)

text \<open>
  Claim C4. The claim: every admitted text is cut to 10000 characters and carries the
  truncation marker whenever it was cut. The content branch (lines 453--462) does that;
  the summary branch (line 465) cuts with \<^verbatim>\<open>[:MAX_DOCUMENT_LENGTH]\<close> and appends no
  marker. A document with no content and a summary of 12000 characters is admitted as
  the first 10000 characters of the summary, nothing after them.
\<close>

theorem summary_cut_without_marker:
  "process_doc 0 1 (summary_only (replicate 12000 CHR ''s'')) doc_state_init
   = (Next, \<lparr>seen_documents = {''doc_0_1''}, doc_contexts = [replicate 10000 CHR ''s''],
             current_total_length = 10000\<rparr>)"
  by (simp add: run_defs str_nat.simps digit_def cong: by_value split del: if_split)

text \<open>
  Claim C5. The claim: each source contributes at most one labelled block. The block of
  the video stage is appended inside the loop over the queries (lines 392--394 are
  indented under the \<^verbatim>\<open>for\<close> of line 363), where the web and the document stage
  append theirs after the loop (lines 345--347 and 495--498). With two planned queries
  that both find a video text the context holds two blocks from the video source, the
  second repeating the first.
\<close>

theorem video_block_repeated:
  "all_contexts (snd (generate_response_try planned_env
       (example_request (user_says ''question''))))
   = [''=== Youtube Search ==='' @ NL @ ''v'',
      ''=== Youtube Search ==='' @ NL @ ''v'' @ NL @ NL @ ''v'']"
  by (simp add: run_defs planned_env_def cong: by_value split del: if_split)

text \<open>
  Claim C6. The claim: for each planned query the video search is invoked with that
  query. Line 373 passes \<^verbatim>\<open>enriched_query\<close>, not the loop variable: with the planned
  queries \<open>a\<close> and \<open>b\<close> and the enriched query \<open>e\<close>, the web and the document search
  are invoked with \<open>a\<close> and \<open>b\<close>, the video search twice with \<open>e\<close>.
\<close>

theorem video_search_gets_enriched_query:
  "snd (generate_response planned_env (example_request (user_says ''question'')))
   = [AnalyzeIntent ''question'' (Some ''ko-KR'') (3 / 10),
      GenerateSearchPlan ''general_query'' ''e'' (Some ''ko-KR'') (7 / 10),
      SearchSingleQuery ''a'' (Some ''ko-KR'') 5 5000,
      SearchSingleQuery ''b'' (Some ''ko-KR'') 5 5000,
      YoutubeMcpSearchVideos ''e'',
      YoutubeMcpSearchVideos ''e'',
      SearchDocuments ''a'' ''semantic'' 3 True,
      SearchDocuments ''b'' ''semantic'' 3 True,
      ChatCompletionsCreate
        [(''system'', ''=== Youtube Search ==='' @ NL @ ''v'' @ NL
            @ ''=== Youtube Search ==='' @ NL @ ''v'' @ NL @ NL @ ''v''), (''user'', ''e'')]
        (Some 1000) (Some (7 / 10)) False]"
  by (simp add: run_defs planned_env_def cong: by_value split del: if_split)

subsection \<open>The start of a run\<close>

lemma initial_frame_fields [simp]:
  "messages (initial_frame rq) = messages rq"
  "max_tokens (initial_frame rq) = max_tokens rq"
  "temperature (initial_frame rq) = temperature rq"
  "planning (initial_frame rq) = planning rq"
  "search_engine (initial_frame rq) = search_engine rq"
  "stream (initial_frame rq) = stream rq"
  "elapsed_time (initial_frame rq) = elapsed_time rq"
  "locale_tag (initial_frame rq) = locale_tag rq"
  "include_web_search (initial_frame rq) = include_web_search rq"
  "include_ytb_search (initial_frame rq) = include_ytb_search rq"
  "include_mcp_server (initial_frame rq) = include_mcp_server rq"
  "include_ai_search (initial_frame rq) = include_ai_search rq"
  "verbose (initial_frame rq) = verbose rq"
  "out (initial_frame rq) = []"
  "calls (initial_frame rq) = []"
  "user_intent (initial_frame rq) = None"
  "all_contexts (initial_frame rq) = []"
  by (simp_all add: initial_frame_def request.extend_def frame.fields_def)

lemma status_only_initial [simp]: "status_only (initial_frame rq)"
  by (simp add: status_only_def)

lemma calls_of_generate_response:
  "snd (generate_response env rq) = calls (snd (generate_response_try env rq))"
  by (simp add: generate_response_def split: prod.splits option.splits)

lemma last_user_message_missing:
  "\<forall>msg \<in> set msgs. role msg \<noteq> ''user'' \<Longrightarrow> last_user_message_of msgs = ''No question provided''"
proof -
  assume "\<forall>msg \<in> set msgs. role msg \<noteq> ''user''"
  then have "filter (\<lambda>msg. role msg = ''user'') (rev msgs) = []"
    by (simp add: filter_empty_conv)
  then show ?thesis by (simp add: last_user_message_of_def)
qed

text \<open>
  Claim C7. The claim: for a request with an empty or a missing user message the output
  is exactly the "input needed" message of the locale, and no retrieval or generation
  call occurs. The code tests one thing (lines 166--175): whether the last user message
  is the placeholder that stands for "no message of role user". An empty message is not
  the placeholder and goes through the whole pipeline; here it is analysed, searched and
  answered.
\<close>

theorem empty_user_message_is_processed:
  "generate_response
     (example_env\<lparr>analyze_intent := (\<lambda>q l. Inr (Some (intent_of ''general_query'' q)))\<rparr>)
     (example_request (user_says ''''))
   = (['' '' @ NL, ''answer'', NL],
      [AnalyzeIntent '''' (Some ''ko-KR'') (3 / 10),
       GenerateSearchPlan ''general_query'' '''' (Some ''ko-KR'') (7 / 10),
       SearchSingleQuery '''' (Some ''ko-KR'') 5 5000,
       YoutubeMcpSearchVideos '''',
       SearchDocuments '''' ''semantic'' 3 True,
       ChatCompletionsCreate [(''system'', ''No relevant context found.''), (''user'', '''')]
         (Some 1000) (Some (7 / 10)) False])
   \<and> generate_response
     (example_env\<lparr>analyze_intent := (\<lambda>q l. Inr (Some (intent_of ''general_query'' q)))\<rparr>)
     (example_request (user_says ''''))
   \<noteq> ([input_needed example_messages], [])"
  by (simp add: run_defs cong: by_value split del: if_split)

text \<open>
  Claim C7, as the code has it: when no message of the request has the role \<open>user\<close>,
  the output is exactly the \<open>input_needed\<close> message of the locale (the entry of
  \<open>ko-KR\<close> when the locale has none), and no collaborator is invoked.
\<close>

theorem no_user_message_asks_for_input:
  assumes ko: "LOCALE_MESSAGES env ''ko-KR'' = Some ko_KR"
    and none: "\<forall>msg \<in> set (messages rq). role msg \<noteq> ''user''"
  shows "generate_response env rq
           = ([input_needed (lookup_locale_msg env (locale_tag rq) ko_KR)], [])"
  using ko last_user_message_missing[OF none]
  by (simp add: generate_response_def generate_response_try_def Let_def)

theorem no_user_message_asks_for_input_witness:
  "LOCALE_MESSAGES example_env ''ko-KR'' = Some example_messages
   \<and> filter (\<lambda>msg. role msg = ''user'')
        (messages (example_request [\<lparr>role = ''system'', content = ''Be brief.''\<rparr>])) = []
   \<and> generate_response example_env (example_request [\<lparr>role = ''system'', content = ''Be brief.''\<rparr>])
       = ([''Please enter a question.''], [])"
proof -
  have ko: "LOCALE_MESSAGES example_env ''ko-KR'' = Some example_messages"
    by (simp add: example_env_def)
  have none: "\<forall>msg \<in> set (messages (example_request [\<lparr>role = ''system'', content = ''Be brief.''\<rparr>])).
                role msg \<noteq> ''user''"
    by (simp add: example_request_def)
  show ?thesis
    using no_user_message_asks_for_input[OF ko none] ko
    by (simp add: lookup_locale_msg_def example_request_def example_env_def example_messages_def)
qed

subsection \<open>The generation stage\<close>

lemma status_only_pipeline_before_answer:
  "status_only
     (ai_search_stage env L (youtube_stage env L (web_stage env L
        ((intent_stage env q L (prologue env L q (initial_frame rq)))\<lparr>all_contexts := []\<rparr>))))"
proof -
  have "status_only (prologue env L q (initial_frame rq))"
    by (simp add: prologue_def Let_def)
  then have "status_only ((intent_stage env q L (prologue env L q (initial_frame rq)))\<lparr>all_contexts := []\<rparr>)"
    by (simp add: status_only_intent_stage)
  then show ?thesis
    by (intro status_only_ai_search_stage status_only_youtube_stage status_only_web_stage)
qed

lemma not_error_status: "is_status_fragment x \<Longrightarrow> \<not> is_error_fragment x"
  by (auto simp: is_status_fragment_def is_error_fragment_def prefix_def)

lemma build_answer_messages_frame [simp]:
  "build_answer_messages env ui c (yield x f) = build_answer_messages env ui c f"
  "build_answer_messages env ui c (yield_if b x f) = build_answer_messages env ui c f"
  "build_answer_messages env ui c (f\<lparr>all_contexts := a\<rparr>) = build_answer_messages env ui c f"
  by (simp_all add: build_answer_messages_def)

lemma answer_stage_generation_fails:
  assumes so: "status_only f"
    and mem: "ChatCompletionsCreate ms mt t s \<in> set (calls (snd (answer_stage env L f)))"
    and fs: "s \<Longrightarrow> create_stream env ms mt t = Inl e"
    and fc: "\<not> s \<Longrightarrow> create_completion env ms mt t = Inl e"
  shows "fst (answer_stage env L f) = Some e
         \<and> list_all (\<lambda>x. \<not> is_error_fragment x) (out (snd (answer_stage env L f)))"
proof (cases "user_intent f")
  case None
  then have "calls (snd (answer_stage env L f)) = calls f"
    by (simp add: answer_stage_def Let_def)
  with mem so show ?thesis by (auto simp: status_only_def list_all_iff)
next
  case (Some ui)
  let ?ctx = "if all_contexts f = [] then [''No relevant context found.''] else all_contexts f"
  let ?ms = "build_answer_messages env ui (join NL ?ctx) f"
  let ?c = "ChatCompletionsCreate ?ms (max_tokens f) (temperature f) (stream f)"
  have calls: "calls (snd (answer_stage env L f)) = calls f @ [?c]"
    using Some
    by (cases "all_contexts f = []")
      (simp_all add: answer_stage_def Let_def finish_def
        split: sum.splits prod.splits option.splits)
  from mem so have eq: "ChatCompletionsCreate ms mt t s = ?c"
    unfolding calls by (auto simp: status_only_def list_all_iff)
  then have args: "ms = ?ms" "mt = max_tokens f" "t = temperature f" "s = stream f"
    by simp_all
  have outs: "list_all (\<lambda>x. \<not> is_error_fragment x) (out f)"
    using so by (auto simp: status_only_def list_all_iff not_error_status)
  have blank: "\<not> is_error_fragment ('' '' @ NL)"
    by (simp add: is_error_fragment_def)
  have st: "\<not> is_error_fragment (status_line (answering L))"
    by (simp add: not_error_status)
  show ?thesis
  proof (cases "stream f")
    case True
    with fs args have "create_stream env ?ms (max_tokens f) (temperature f) = Inl e" by simp
    with Some True outs blank st show ?thesis
      by (cases "all_contexts f = []")
        (simp_all add: answer_stage_def Let_def)
  next
    case False
    with fc args have "create_completion env ?ms (max_tokens f) (temperature f) = Inl e" by simp
    with Some False outs blank st show ?thesis
      by (cases "all_contexts f = []")
        (simp_all add: answer_stage_def Let_def)
  qed
qed

lemma answer_stage_raises:
  assumes so: "status_only f" and r: "answer_stage env L f = (Some e, f')"
  shows "\<exists>pre chunks. out f' = pre @ chunks
           \<and> list_all (\<lambda>x. \<not> is_error_fragment x) pre
           \<and> (chunks = [] \<or> (\<exists>ms mt t. ChatCompletionsCreate ms mt t True \<in> set (calls f')))"
proof -
  let ?pre = "out f @ (if stream f then [status_line (answering L)] else []) @ ['' '' @ NL]"
  have outs: "list_all (\<lambda>x. \<not> is_error_fragment x) (out f)"
    using so by (auto simp: status_only_def list_all_iff not_error_status)
  have pre: "list_all (\<lambda>x. \<not> is_error_fragment x) ?pre"
    using outs by (simp add: not_error_status) (simp add: is_error_fragment_def)
  have "\<exists>chunks. out f' = ?pre @ chunks
          \<and> (chunks = [] \<or> (\<exists>ms mt t. ChatCompletionsCreate ms mt t True \<in> set (calls f')))"
  proof (cases "user_intent f")
    case None
    with r have "out f' = ?pre"
      by (cases "all_contexts f = []") (auto simp: answer_stage_def Let_def)
    then show ?thesis by simp
  next
    case (Some ui)
    show ?thesis
    proof (cases "stream f")
      case False
      with Some r have "out f' = ?pre"
        by (cases "all_contexts f = []") (auto simp: answer_stage_def Let_def split: sum.splits)
      then show ?thesis by simp
    next
      case True
      let ?ctx = "if all_contexts f = [] then [''No relevant context found.''] else all_contexts f"
      let ?c = "ChatCompletionsCreate (build_answer_messages env ui (join NL ?ctx) f)
                  (max_tokens f) (temperature f) True"
      have c: "?c \<in> set (calls f')"
        using Some True r
        by (cases "all_contexts f = []")
          (auto simp: answer_stage_def Let_def split: sum.splits prod.splits option.splits)
      have o: "\<exists>chunks. out f' = ?pre @ chunks"
        using Some True r
        by (cases "all_contexts f = []")
          (auto simp: answer_stage_def Let_def split: sum.splits prod.splits option.splits)
      from c o show ?thesis by blast
    qed
  qed
  with pre show ?thesis by blast
qed

text \<open>
  Claim C9. An error that is not recovered locally ends the output with exactly one
  fragment \<open>Error: <message>\<close>, and nothing is raised to the caller:
  \<^const>\<open>generate_response\<close> yields a list of fragments for every input, the handler of
  lines 579--582 having turned the exception of the body into the last fragment.
  Whenever the body raises \<open>e'\<close>, the output is fragments none of which has the form
  \<open>Error: ...\<close>, then the answer increments a streamed completion delivered before it
  failed (none unless a streaming completion was started), then \<open>Error: e'\<close>. In
  particular, when the completion client is invoked and that invocation raises \<open>e\<close>
  (the streaming call when \<open>stream\<close> is set, the plain one otherwise), the output is
  fragments none of which has the form \<open>Error: ...\<close>, and then \<open>Error: e\<close>.
\<close>

theorem generation_failure_single_error_fragment:
  "(fst (generate_response_try env rq) = Some e'
      \<longrightarrow> (\<exists>pre chunks. fst (generate_response env rq) = pre @ chunks @ [''Error: '' @ e']
             \<and> list_all (\<lambda>x. \<not> is_error_fragment x) pre
             \<and> (chunks = []
                \<or> (\<exists>ms mt t. ChatCompletionsCreate ms mt t True
                                \<in> set (snd (generate_response env rq))))))
   \<and> (ChatCompletionsCreate ms mt t s \<in> set (snd (generate_response env rq))
        \<and> (s \<longrightarrow> create_stream env ms mt t = Inl e)
        \<and> (\<not> s \<longrightarrow> create_completion env ms mt t = Inl e)
      \<longrightarrow> (\<exists>pre. fst (generate_response env rq) = pre @ [''Error: '' @ e]
             \<and> list_all (\<lambda>x. \<not> is_error_fragment x) pre))"
proof (intro conjI impI)
  assume raised: "fst (generate_response_try env rq) = Some e'"
  then obtain f' where tried: "generate_response_try env rq = (Some e', f')"
    by (cases "generate_response_try env rq") simp
  then have out: "fst (generate_response env rq) = out f' @ [''Error: '' @ e']"
    and calls: "snd (generate_response env rq) = calls f'"
    by (simp_all add: generate_response_def)
  have "\<exists>pre chunks. out f' = pre @ chunks
           \<and> list_all (\<lambda>x. \<not> is_error_fragment x) pre
           \<and> (chunks = [] \<or> (\<exists>ms mt t. ChatCompletionsCreate ms mt t True \<in> set (calls f')))"
  proof (cases "LOCALE_MESSAGES env ''ko-KR''")
    case None
    with tried have "out f' = []" by (auto simp: generate_response_try_def Let_def)
    then show ?thesis by simp
  next
    case (Some ko_KR)
    let ?q = "last_user_message_of (messages rq)"
    let ?L = "lookup_locale_msg env (locale_tag rq) ko_KR"
    let ?f8 = "ai_search_stage env ?L (youtube_stage env ?L (web_stage env ?L
                 ((intent_stage env ?q ?L (prologue env ?L ?q (initial_frame rq)))\<lparr>all_contexts := []\<rparr>)))"
    have q: "?q \<noteq> ''No question provided''"
      using Some tried by (auto simp: generate_response_try_def Let_def)
    have run: "generate_response_try env rq = answer_stage env ?L ?f8"
      using Some q by (simp add: generate_response_try_def pipeline_def Let_def)
    have so: "status_only ?f8" by (rule status_only_pipeline_before_answer)
    from run tried have "answer_stage env ?L ?f8 = (Some e', f')" by simp
    from answer_stage_raises[OF so this] show ?thesis .
  qed
  then show "\<exists>pre chunks. fst (generate_response env rq) = pre @ chunks @ [''Error: '' @ e']
             \<and> list_all (\<lambda>x. \<not> is_error_fragment x) pre
             \<and> (chunks = []
                \<or> (\<exists>ms mt t. ChatCompletionsCreate ms mt t True
                                \<in> set (snd (generate_response env rq))))"
    unfolding out calls by auto
next
  assume h: "ChatCompletionsCreate ms mt t s \<in> set (snd (generate_response env rq))
        \<and> (s \<longrightarrow> create_stream env ms mt t = Inl e)
        \<and> (\<not> s \<longrightarrow> create_completion env ms mt t = Inl e)"
  then have mem: "ChatCompletionsCreate ms mt t s \<in> set (snd (generate_response env rq))"
    and fs: "s \<Longrightarrow> create_stream env ms mt t = Inl e"
    and fc: "\<not> s \<Longrightarrow> create_completion env ms mt t = Inl e"
    by simp_all
  show "\<exists>pre. fst (generate_response env rq) = pre @ [''Error: '' @ e]
             \<and> list_all (\<lambda>x. \<not> is_error_fragment x) pre"
  proof (cases "LOCALE_MESSAGES env ''ko-KR''")
    case None
    with mem show ?thesis
      by (simp add: generate_response_def generate_response_try_def Let_def)
  next
    case (Some ko_KR)
    let ?q = "last_user_message_of (messages rq)"
    let ?L = "lookup_locale_msg env (locale_tag rq) ko_KR"
    show ?thesis
    proof (cases "?q = ''No question provided''")
      case True
      with Some mem show ?thesis
        by (simp add: generate_response_def generate_response_try_def Let_def)
    next
      case False
      let ?f8 = "ai_search_stage env ?L (youtube_stage env ?L (web_stage env ?L
                   ((intent_stage env ?q ?L (prologue env ?L ?q (initial_frame rq)))\<lparr>all_contexts := []\<rparr>)))"
      have run: "generate_response_try env rq = answer_stage env ?L ?f8"
        using Some False by (simp add: generate_response_try_def pipeline_def Let_def)
      have so: "status_only ?f8" by (rule status_only_pipeline_before_answer)
      from mem run have mem': "ChatCompletionsCreate ms mt t s \<in> set (calls (snd (answer_stage env ?L ?f8)))"
        by (simp add: calls_of_generate_response)
      from answer_stage_generation_fails[OF so mem' fs fc]
      have r: "fst (answer_stage env ?L ?f8) = Some e"
        and o: "list_all (\<lambda>x. \<not> is_error_fragment x) (out (snd (answer_stage env ?L ?f8)))"
        by simp_all
      obtain f' where "answer_stage env ?L ?f8 = (Some e, f')"
        using r by (cases "answer_stage env ?L ?f8") simp
      with run o show ?thesis by (simp add: generate_response_def)
    qed
  qed
qed

theorem generation_failure_single_error_fragment_witness:
  "fst (generate_response_try
          (example_env\<lparr>analyze_intent := (\<lambda>q l. Inr (Some (intent_of ''general_query'' q))),
                       create_completion := (\<lambda>ms m t. Inl ''service unavailable'')\<rparr>)
          (example_request (user_says ''hello''))) = Some ''service unavailable''
   \<and> ChatCompletionsCreate [(''system'', ''No relevant context found.''), (''user'', ''hello'')]
       (Some 1000) (Some (7 / 10)) False
     \<in> set (snd (generate_response
                  (example_env\<lparr>analyze_intent := (\<lambda>q l. Inr (Some (intent_of ''general_query'' q))),
                               create_completion := (\<lambda>ms m t. Inl ''service unavailable'')\<rparr>)
                  (example_request (user_says ''hello''))))
   \<and> (\<exists>pre. fst (generate_response
                  (example_env\<lparr>analyze_intent := (\<lambda>q l. Inr (Some (intent_of ''general_query'' q))),
                               create_completion := (\<lambda>ms m t. Inl ''service unavailable'')\<rparr>)
                  (example_request (user_says ''hello'')))
               = pre @ [''Error: service unavailable'']
             \<and> list_all (\<lambda>x. \<not> is_error_fragment x) pre)"
proof -
  let ?env = "example_env\<lparr>analyze_intent := (\<lambda>q l. Inr (Some (intent_of ''general_query'' q))),
                          create_completion := (\<lambda>ms m t. Inl ''service unavailable'')\<rparr>"
  let ?ms = "[(''system'', ''No relevant context found.''), (''user'', ''hello'')]"
  have raised: "fst (generate_response_try ?env (example_request (user_says ''hello'')))
                  = Some ''service unavailable''"
    by (simp add: run_defs cong: by_value split del: if_split)
  have mem: "ChatCompletionsCreate ?ms (Some 1000) (Some (7 / 10)) False
               \<in> set (snd (generate_response ?env (example_request (user_says ''hello''))))"
    by (simp add: run_defs cong: by_value split del: if_split)
  have fc: "create_completion ?env ?ms (Some 1000) (Some (7 / 10)) = Inl ''service unavailable''"
    by simp
  from generation_failure_single_error_fragment[of ?env "example_request (user_says ''hello'')" "''service unavailable''"
      ?ms "Some 1000" "Some (7 / 10)" False "''service unavailable''"] raised mem fc
  show ?thesis by simp
qed

subsection \<open>Small talk\<close>

lemma intent_stage_small_talk:
  assumes intent: "analyze_intent env q (locale_tag f) = Inr (Some d)"
    and small: "i_user_intent d = Some ''small_talk''"
  shows "planning (intent_stage env q L f) = False"
    and "include_web_search (intent_stage env q L f) = False"
    and "include_ytb_search (intent_stage env q L f) = False"
    and "include_ai_search (intent_stage env q L f) = include_ai_search f"
    and "user_intent (intent_stage env q L f) = Some ''small_talk''"
    and "search_queries (intent_stage env q L f) = [get_default (i_search_query d) q]"
    and "calls (intent_stage env q L f) = calls f @ [AnalyzeIntent q (locale_tag f) (3 / 10)]"
  using intent small
  by (simp_all add: intent_stage_def intent_try_def Let_def)

lemma web_stage_off: "\<not> include_web_search f \<Longrightarrow> web_stage env L f = f"
  by (simp add: web_stage_def)

lemma youtube_stage_off: "\<not> include_ytb_search f \<Longrightarrow> youtube_stage env L f = f"
  by (simp add: youtube_stage_def)

lemma ai_search_stage_off: "\<not> include_ai_search f \<Longrightarrow> ai_search_stage env L f = f"
  by (simp add: ai_search_stage_def)

lemma ai_search_stage_single:
  assumes one: "search_queries f = [q]" and on: "include_ai_search f"
  shows "planning (ai_search_stage env L f) = planning f"
    and "include_web_search (ai_search_stage env L f) = include_web_search f"
    and "include_ytb_search (ai_search_stage env L f) = include_ytb_search f"
    and "user_intent (ai_search_stage env L f) = user_intent f"
    and "calls (ai_search_stage env L f) = calls f @ [SearchDocuments q ''semantic'' 3 True]"
    and "search_documents env q = Inr res \<Longrightarrow> doc_contexts (process_result 0 res doc_state_init) \<noteq> []
          \<Longrightarrow> all_contexts (ai_search_stage env L f)
              = all_contexts f @ [''=== Document Context ==='' @ NL
                    @ join (NL @ NL) (doc_contexts (process_result 0 res doc_state_init))]"
  using one on
  by (simp_all add: ai_search_stage_def ai_search_try_def Let_def split: sum.splits)


lemma prologue_fields [simp]:
  "planning (prologue env L q f) = planning f"
  "include_web_search (prologue env L q f) = include_web_search f"
  "include_ytb_search (prologue env L q f) = include_ytb_search f"
  "include_ai_search (prologue env L q f) = include_ai_search f"
  "locale_tag (prologue env L q f) = locale_tag f"
  "calls (prologue env L q f) = calls f"
  by (simp_all add: prologue_def Let_def)

lemma answer_stage_setup:
  "planning (snd (answer_stage env L f)) = planning f"
  "include_web_search (snd (answer_stage env L f)) = include_web_search f"
  "include_ytb_search (snd (answer_stage env L f)) = include_ytb_search f"
  "all_contexts (snd (answer_stage env L f))
     = (if all_contexts f = [] then [''No relevant context found.''] else all_contexts f)"
  by (simp_all add: answer_stage_def Let_def finish_def split: option.splits sum.splits prod.splits)

lemma answer_stage_calls:
  "\<exists>cs. calls (snd (answer_stage env L f)) = calls f @ cs \<and> list_all is_generation_call cs"
proof (cases "user_intent f")
  case None
  then show ?thesis by (simp add: answer_stage_def Let_def)
next
  case (Some ui)
  then show ?thesis
    by (simp add: answer_stage_def Let_def finish_def split: option.splits sum.splits prod.splits)
qed

lemma small_talk_run:
  assumes ko: "LOCALE_MESSAGES env ''ko-KR'' = Some ko_KR"
    and q: "last_user_message_of (messages rq) \<noteq> ''No question provided''"
    and intent: "analyze_intent env (last_user_message_of (messages rq)) (locale_tag rq) = Inr (Some d)"
    and small: "i_user_intent d = Some ''small_talk''"
  defines "sq \<equiv> get_default (i_search_query d) (last_user_message_of (messages rq))"
  defines "final \<equiv> snd (generate_response_try env rq)"
  shows "\<not> planning final" and "\<not> include_web_search final" and "\<not> include_ytb_search final"
    and "\<exists>cs. calls final
            = AnalyzeIntent (last_user_message_of (messages rq)) (locale_tag rq) (3 / 10)
                # (if include_ai_search rq then [SearchDocuments sq ''semantic'' 3 True] else []) @ cs
              \<and> list_all is_generation_call cs"
    and "include_ai_search rq \<Longrightarrow> search_documents env sq = Inr res
          \<Longrightarrow> doc_contexts (process_result 0 res doc_state_init) \<noteq> []
          \<Longrightarrow> all_contexts final
              = [''=== Document Context ==='' @ NL
                   @ join (NL @ NL) (doc_contexts (process_result 0 res doc_state_init))]"
proof -
  let ?q = "last_user_message_of (messages rq)"
  let ?L = "lookup_locale_msg env (locale_tag rq) ko_KR"
  let ?f3 = "prologue env ?L ?q (initial_frame rq)"
  let ?f4 = "intent_stage env ?q ?L ?f3"
  let ?f5 = "?f4\<lparr>all_contexts := []\<rparr>"
  let ?f8 = "ai_search_stage env ?L ?f5"
  have intent': "analyze_intent env ?q (locale_tag ?f3) = Inr (Some d)"
    using intent by simp
  note f4 = intent_stage_small_talk[OF intent' small, of ?L]
  have web: "web_stage env ?L ?f5 = ?f5" by (rule web_stage_off) (simp add: f4)
  have ytb: "youtube_stage env ?L ?f5 = ?f5" by (rule youtube_stage_off) (simp add: f4)
  have run: "generate_response_try env rq = answer_stage env ?L ?f8"
    using ko q by (simp add: generate_response_try_def pipeline_def Let_def web ytb)
  have one: "search_queries ?f5 = [sq]" by (simp add: f4 sq_def)
  have f8: "\<not> planning ?f8 \<and> \<not> include_web_search ?f8 \<and> \<not> include_ytb_search ?f8
            \<and> calls ?f8 = AnalyzeIntent ?q (locale_tag rq) (3 / 10)
                # (if include_ai_search rq then [SearchDocuments sq ''semantic'' 3 True] else [])"
  proof (cases "include_ai_search rq")
    case True
    then have on: "include_ai_search ?f5" by (simp add: f4)
    show ?thesis using True by (simp add: ai_search_stage_single[OF one on] f4)
  next
    case False
    then have "?f8 = ?f5" by (intro ai_search_stage_off) (simp add: f4)
    with False show ?thesis by (simp add: f4)
  qed
  show "\<not> planning final" "\<not> include_web_search final" "\<not> include_ytb_search final"
    using f8 by (simp_all add: final_def run answer_stage_setup)
  show "\<exists>cs. calls final
            = AnalyzeIntent ?q (locale_tag rq) (3 / 10)
                # (if include_ai_search rq then [SearchDocuments sq ''semantic'' 3 True] else []) @ cs
              \<and> list_all is_generation_call cs"
    using answer_stage_calls[of env ?L ?f8] f8 by (auto simp: final_def run)
  show "all_contexts final
              = [''=== Document Context ==='' @ NL
                   @ join (NL @ NL) (doc_contexts (process_result 0 res doc_state_init))]"
    if ai: "include_ai_search rq" and found: "search_documents env sq = Inr res"
      and some: "doc_contexts (process_result 0 res doc_state_init) \<noteq> []"
  proof -
    have on: "include_ai_search ?f5" using ai by (simp add: f4)
    have "all_contexts ?f8 = [''=== Document Context ==='' @ NL
                   @ join (NL @ NL) (doc_contexts (process_result 0 res doc_state_init))]"
      using ai_search_stage_single(6)[OF one on found some] by simp
    then show ?thesis by (simp add: final_def run answer_stage_setup)
  qed
qed


lemma generation_call_kind:
  "is_generation_call c \<Longrightarrow> \<not> is_plan_call c \<and> \<not> is_web_call c \<and> \<not> is_video_call c"
  by (cases c) simp_all

text \<open>
  Claim C8. When the intent analysis returns the intent \<open>small_talk\<close>, the flags
  \<open>planning\<close>, \<open>include_web_search\<close> and \<open>include_ytb_search\<close> are false from
  there to the end of the request, whatever the caller passed: they are false in the
  frame the run ends with, and the run holds no invocation of the planner, of a web
  search or of a video search.
\<close>

theorem small_talk_disables_planning_and_search:
  assumes ko: "LOCALE_MESSAGES env ''ko-KR'' = Some ko_KR"
    and q: "last_user_message_of (messages rq) \<noteq> ''No question provided''"
    and intent: "analyze_intent env (last_user_message_of (messages rq)) (locale_tag rq) = Inr (Some d)"
    and small: "i_user_intent d = Some ''small_talk''"
  shows "\<not> planning (snd (generate_response_try env rq))
       \<and> \<not> include_web_search (snd (generate_response_try env rq))
       \<and> \<not> include_ytb_search (snd (generate_response_try env rq))
       \<and> list_all (\<lambda>c. \<not> is_plan_call c \<and> \<not> is_web_call c \<and> \<not> is_video_call c)
            (snd (generate_response env rq))"
proof -
  note run = small_talk_run[OF ko q intent small]
  from run(4) obtain cs where
    calls: "calls (snd (generate_response_try env rq))
              = AnalyzeIntent (last_user_message_of (messages rq)) (locale_tag rq) (3 / 10)
                  # (if include_ai_search rq
                     then [SearchDocuments (get_default (i_search_query d)
                             (last_user_message_of (messages rq))) ''semantic'' 3 True]
                     else []) @ cs"
    and gen: "list_all is_generation_call cs"
    by blast
  have "list_all (\<lambda>c. \<not> is_plan_call c \<and> \<not> is_web_call c \<and> \<not> is_video_call c) cs"
    using gen by (auto simp: list_all_iff dest: generation_call_kind)
  then have "list_all (\<lambda>c. \<not> is_plan_call c \<and> \<not> is_web_call c \<and> \<not> is_video_call c)
               (snd (generate_response env rq))"
    by (simp add: calls_of_generate_response calls)
  with run(1-3) show ?thesis by simp
qed

theorem small_talk_disables_planning_and_search_witness:
  "LOCALE_MESSAGES (example_env\<lparr>analyze_intent := (\<lambda>q l. Inr (Some (intent_of ''small_talk'' q)))\<rparr>) ''ko-KR''
     = Some example_messages
   \<and> planning (example_request (user_says ''hello'')) 
   \<and> include_web_search (example_request (user_says ''hello''))
   \<and> include_ytb_search (example_request (user_says ''hello''))
   \<and> \<not> planning (snd (generate_response_try
          (example_env\<lparr>analyze_intent := (\<lambda>q l. Inr (Some (intent_of ''small_talk'' q)))\<rparr>)
          (example_request (user_says ''hello''))))
   \<and> \<not> include_web_search (snd (generate_response_try
          (example_env\<lparr>analyze_intent := (\<lambda>q l. Inr (Some (intent_of ''small_talk'' q)))\<rparr>)
          (example_request (user_says ''hello''))))
   \<and> \<not> include_ytb_search (snd (generate_response_try
          (example_env\<lparr>analyze_intent := (\<lambda>q l. Inr (Some (intent_of ''small_talk'' q)))\<rparr>)
          (example_request (user_says ''hello''))))
   \<and> list_all (\<lambda>c. \<not> is_plan_call c \<and> \<not> is_web_call c \<and> \<not> is_video_call c)
        (snd (generate_response
          (example_env\<lparr>analyze_intent := (\<lambda>q l. Inr (Some (intent_of ''small_talk'' q)))\<rparr>)
          (example_request (user_says ''hello''))))"
proof -
  let ?env = "example_env\<lparr>analyze_intent := (\<lambda>q l. Inr (Some (intent_of ''small_talk'' q)))\<rparr>"
  let ?rq = "example_request (user_says ''hello'')"
  have ko: "LOCALE_MESSAGES ?env ''ko-KR'' = Some example_messages"
    by (simp add: example_env_def)
  have q: "last_user_message_of (messages ?rq) \<noteq> ''No question provided''"
    by (simp add: last_user_message_of_def example_request_def user_says_def)
  have intent: "analyze_intent ?env (last_user_message_of (messages ?rq)) (locale_tag ?rq)
                  = Inr (Some (intent_of ''small_talk'' ''hello''))"
    by (simp add: last_user_message_of_def example_request_def user_says_def)
  have small: "i_user_intent (intent_of ''small_talk'' ''hello'') = Some ''small_talk''"
    by (simp add: intent_of_def)
  have flags: "planning ?rq \<and> include_web_search ?rq \<and> include_ytb_search ?rq"
    by (simp add: example_request_def)
  from small_talk_disables_planning_and_search[OF ko q intent small] ko flags
  show ?thesis by simp
qed

text \<open>
  Claim C10. The intent \<open>small_talk\<close> does not switch the document search off: with
  \<open>include_ai_search\<close> set, the document search is invoked with the search query of
  the analysis, and when its result lets the budgeter admit a text, the context handed
  to generation is the \<open>Document Context\<close> block of the admitted texts.
\<close>

theorem small_talk_keeps_document_search:
  assumes ko: "LOCALE_MESSAGES env ''ko-KR'' = Some ko_KR"
    and q: "last_user_message_of (messages rq) \<noteq> ''No question provided''"
    and intent: "analyze_intent env (last_user_message_of (messages rq)) (locale_tag rq) = Inr (Some d)"
    and small: "i_user_intent d = Some ''small_talk''"
    and ai: "include_ai_search rq"
  shows "SearchDocuments (get_default (i_search_query d) (last_user_message_of (messages rq)))
             ''semantic'' 3 True
           \<in> set (snd (generate_response env rq))
       \<and> (\<forall>res. search_documents env
                   (get_default (i_search_query d) (last_user_message_of (messages rq))) = Inr res
                 \<and> doc_contexts (process_result 0 res doc_state_init) \<noteq> []
               \<longrightarrow> all_contexts (snd (generate_response_try env rq))
                     = [''=== Document Context ==='' @ NL
                          @ join (NL @ NL) (doc_contexts (process_result 0 res doc_state_init))])"
proof -
  note run = small_talk_run[OF ko q intent small]
  from run(4) ai have "SearchDocuments (get_default (i_search_query d)
        (last_user_message_of (messages rq))) ''semantic'' 3 True
      \<in> set (snd (generate_response env rq))"
    by (auto simp: calls_of_generate_response)
  moreover have "all_contexts (snd (generate_response_try env rq))
                     = [''=== Document Context ==='' @ NL
                          @ join (NL @ NL) (doc_contexts (process_result 0 res doc_state_init))]"
    if "search_documents env
          (get_default (i_search_query d) (last_user_message_of (messages rq))) = Inr res"
      and "doc_contexts (process_result 0 res doc_state_init) \<noteq> []" for res
    using run(5)[OF ai that] .
  ultimately show ?thesis by blast
qed

theorem small_talk_keeps_document_search_witness:
  "include_ai_search (example_request (user_says ''hello''))
   \<and> SearchDocuments ''hello'' ''semantic'' 3 True
       \<in> set (snd (generate_response
            (example_env\<lparr>analyze_intent := (\<lambda>q l. Inr (Some (intent_of ''small_talk'' q))),
                         search_documents := (\<lambda>q. found [document_with ''faq'' ''Open 9 to 5.''])\<rparr>)
            (example_request (user_says ''hello''))))
   \<and> all_contexts (snd (generate_response_try
            (example_env\<lparr>analyze_intent := (\<lambda>q l. Inr (Some (intent_of ''small_talk'' q))),
                         search_documents := (\<lambda>q. found [document_with ''faq'' ''Open 9 to 5.''])\<rparr>)
            (example_request (user_says ''hello''))))
       = [''=== Document Context ==='' @ NL @ ''Open 9 to 5.'']"
proof -
  let ?env = "example_env\<lparr>analyze_intent := (\<lambda>q l. Inr (Some (intent_of ''small_talk'' q))),
                 search_documents := (\<lambda>q. found [document_with ''faq'' ''Open 9 to 5.''])\<rparr>"
  let ?rq = "example_request (user_says ''hello'')"
  let ?res = "Some \<lparr>status = Some ''success'',
                    documents = Some [document_with ''faq'' ''Open 9 to 5.'']\<rparr>"
  have ko: "LOCALE_MESSAGES ?env ''ko-KR'' = Some example_messages"
    by (simp add: example_env_def)
  have q: "last_user_message_of (messages ?rq) \<noteq> ''No question provided''"
    by (simp add: last_user_message_of_def example_request_def user_says_def)
  have intent: "analyze_intent ?env (last_user_message_of (messages ?rq)) (locale_tag ?rq)
                  = Inr (Some (intent_of ''small_talk'' ''hello''))"
    by (simp add: last_user_message_of_def example_request_def user_says_def)
  have small: "i_user_intent (intent_of ''small_talk'' ''hello'') = Some ''small_talk''"
    by (simp add: intent_of_def)
  have ai: "include_ai_search ?rq" by (simp add: example_request_def)
  have sq: "get_default (i_search_query (intent_of ''small_talk'' ''hello''))
              (last_user_message_of (messages ?rq)) = ''hello''"
    by (simp add: intent_of_def)
  have found: "search_documents ?env ''hello'' = Inr ?res" by (simp add: found_def)
  have docs: "doc_contexts (process_result 0 ?res doc_state_init) = [''Open 9 to 5.'']"
    by (simp add: process_result_def process_doc_def doc_identity_def content_to_add_def
          document_with_def doc_state_init_def MAX_CONTEXT_LENGTH_def MAX_DOCUMENT_LENGTH_def
          Let_def)
  from small_talk_keeps_document_search[OF ko q intent small ai] sq found docs ai
  show ?thesis by simp
qed

end
